theory Spec2Isabelle
  imports Complex_Main
begin

section \<open>JavaScript values\<close>

text \<open>
  A JavaScript number is a finite value, one of the two infinities, or NaN. Finite
  doubles are embedded in the reals; nothing below depends on rounding.
\<close>

datatype jsnum = Fin real | PosInf | NegInf | NaN

text \<open>
  Values as the program meets them at run time: parsed response bodies, payloads and
  the vectors handed to the validator (typed \<open>number[][]\<close> but checked dynamically).
\<close>

datatype json =
    JUndefined
  | JNull
  | JBool bool
  | JNum jsnum
  | JStr string
  | JArr "json list"
  | JObj "(string \<times> json) list"

text \<open>
  Built-ins of the JavaScript runtime that the program calls on arbitrary values. They
  are not code of the repository, so they are parameters of the model.
\<close>

record js_runtime =
  ToNumber :: "json \<Rightarrow> jsnum"
  ToString :: "json \<Rightarrow> string"
  JSON_stringify :: "json \<Rightarrow> string"
  toFixed2 :: "jsnum \<Rightarrow> string"

text \<open>\<open>Array.isArray(v)\<close>\<close>

fun isArray :: "json \<Rightarrow> bool" where
  "isArray (JArr xs) = True"
| "isArray v = False"

text \<open>\<open>typeof v === 'number'\<close>\<close>

fun typeof_number :: "json \<Rightarrow> bool" where
  "typeof_number (JNum n) = True"
| "typeof_number v = False"

text \<open>\<open>isNaN(v)\<close>, which coerces its argument with ToNumber first.\<close>

fun isNaN :: "js_runtime \<Rightarrow> json \<Rightarrow> bool" where
  "isNaN rt (JNum n) = (n = NaN)"
| "isNaN rt v = (ToNumber rt v = NaN)"

text \<open>\<open>Math.abs(n) > 100\<close> on a number: false for NaN, true for both infinities.\<close>

fun abs_exceeds_100 :: "jsnum \<Rightarrow> bool" where
  "abs_exceeds_100 (Fin r) = (\<bar>r\<bar> > 100)"
| "abs_exceeds_100 PosInf = True"
| "abs_exceeds_100 NegInf = True"
| "abs_exceeds_100 NaN = False"

text \<open>\<open>Math.abs(v) > 100\<close> on any value: \<open>Math.abs\<close> coerces with ToNumber.\<close>

fun math_abs_gt_100 :: "js_runtime \<Rightarrow> json \<Rightarrow> bool" where
  "math_abs_gt_100 rt (JNum n) = abs_exceeds_100 n"
| "math_abs_gt_100 rt v = abs_exceeds_100 (ToNumber rt v)"

text \<open>JavaScript truthiness, as used by \<open>!v\<close>, \<open>if (v)\<close> and \<open>a || b\<close>.\<close>

fun truthy :: "json \<Rightarrow> bool" where
  "truthy JUndefined = False"
| "truthy JNull = False"
| "truthy (JBool b) = b"
| "truthy (JNum n) = (n \<noteq> Fin 0 \<and> n \<noteq> NaN)"
| "truthy (JStr s) = (s \<noteq> [])"
| "truthy (JArr xs) = True"
| "truthy (JObj kvs) = True"

text \<open>
  \<open>String(v)\<close>, and a value inside a template literal: a string stands for itself,
  anything else is converted by the runtime.
\<close>

definition js_String :: "js_runtime \<Rightarrow> json \<Rightarrow> string" where
  "js_String rt v = (case v of JStr s \<Rightarrow> s | _ \<Rightarrow> ToString rt v)"

text \<open>\<open>a || b\<close>\<close>

definition js_or :: "json \<Rightarrow> json \<Rightarrow> json" where
  "js_or a b = (if truthy a then a else b)"

text \<open>A line feed, the \<open>\n\<close> of the source's string literals.\<close>

definition nl :: string where
  "nl = [CHR 0x0A]"

text \<open>
  A non-negative integer inside a template literal (\<open>`${index}`\<close>): its decimal digits.
\<close>

definition digit_char :: "nat \<Rightarrow> char" where
  "digit_char d = ''0123456789'' ! d"

function string_of_nat :: "nat \<Rightarrow> string" where
  "string_of_nat n =
     (if n < 10 then [digit_char n]
      else string_of_nat (n div 10) @ [digit_char (n mod 10)])"
  by pat_completeness auto
termination
  by (relation "measure id") auto

declare string_of_nat.simps [simp del]

section \<open>Vector data validation (\<open>VectorValidationService.validateVectorData\<close>)\<close>

record VectorDataValidationResult =
  dv_isValid :: bool
  errors :: "string list"
  warnings :: "string list"
  vectorCount :: nat
  expectedSize :: nat

definition not_an_array_message :: "nat \<Rightarrow> string" where
  "not_an_array_message index =
     ''Vector at index '' @ string_of_nat index @ '' is not an array''"

definition size_message :: "nat \<Rightarrow> nat \<Rightarrow> nat \<Rightarrow> string" where
  "size_message index len expected =
     ''Vector at index '' @ string_of_nat index @ '' has size '' @ string_of_nat len
       @ '', expected '' @ string_of_nat expected"

definition non_numeric_message :: "nat \<Rightarrow> nat \<Rightarrow> string" where
  "non_numeric_message index n =
     ''Vector at index '' @ string_of_nat index @ '' contains '' @ string_of_nat n
       @ '' non-numeric values''"

definition extreme_message :: "nat \<Rightarrow> nat \<Rightarrow> string" where
  "extreme_message index n =
     ''Vector at index '' @ string_of_nat index @ '' contains '' @ string_of_nat n
       @ '' values with absolute value > 100''"

text \<open>
  The predicate of \<open>vector.filter((val) => typeof val !== 'number' || isNaN(val))\<close>.
\<close>

definition non_number :: "js_runtime \<Rightarrow> json \<Rightarrow> bool" where
  "non_number rt val = (\<not> typeof_number val \<or> isNaN rt val)"

text \<open>
  The body of \<open>vectors.forEach((vector, index) => ...)\<close>: it pushes onto the two
  lists \<open>errors\<close> and \<open>warnings\<close>, here the pair \<open>(errs, warns)\<close>. The early
  \<open>return\<close> of the not-an-array branch skips the three checks after it.
\<close>

definition check_vector ::
  "js_runtime \<Rightarrow> nat \<Rightarrow> nat \<Rightarrow> json \<Rightarrow> string list \<times> string list
     \<Rightarrow> string list \<times> string list" where
  "check_vector rt expected index vector ew =
     (case vector of
        JArr elems \<Rightarrow>
          (let errs1 = (if length elems \<noteq> expected
                        then fst ew @ [size_message index (length elems) expected]
                        else fst ew);
               nonNumbers = filter (non_number rt) elems;
               errs2 = (if length nonNumbers > 0
                        then errs1 @ [non_numeric_message index (length nonNumbers)]
                        else errs1);
               extremeValues = filter (math_abs_gt_100 rt) elems;
               warns1 = (if length extremeValues > 0
                         then snd ew @ [extreme_message index (length extremeValues)]
                         else snd ew)
           in (errs2, warns1))
      | _ \<Rightarrow> (fst ew @ [not_an_array_message index], snd ew))"

fun forEach_vector ::
  "js_runtime \<Rightarrow> nat \<Rightarrow> nat \<Rightarrow> json list \<Rightarrow> string list \<times> string list
     \<Rightarrow> string list \<times> string list" where
  "forEach_vector rt expected index [] ew = ew"
| "forEach_vector rt expected index (vector # rest) ew =
     forEach_vector rt expected (Suc index) rest (check_vector rt expected index vector ew)"

definition validateVectorData ::
  "js_runtime \<Rightarrow> json list \<Rightarrow> nat \<Rightarrow> VectorDataValidationResult" where
  "validateVectorData rt vectors expected =
     (let errs0 = (if length vectors = 0 then [''No vectors provided''] else []);
          ew = forEach_vector rt expected 0 vectors (errs0, [])
      in \<lparr> dv_isValid = (length (fst ew) = 0),
           errors = fst ew,
           warnings = snd ew,
           vectorCount = length vectors,
           expectedSize = expected \<rparr>)"

text \<open>
  What one vector contributes on its own: the errors and the warnings the loop body
  pushes for it when both lists start empty.
\<close>

definition vector_errors :: "js_runtime \<Rightarrow> nat \<Rightarrow> nat \<Rightarrow> json \<Rightarrow> string list" where
  "vector_errors rt expected index vector = fst (check_vector rt expected index vector ([], []))"

definition vector_warnings :: "js_runtime \<Rightarrow> nat \<Rightarrow> nat \<Rightarrow> json \<Rightarrow> string list" where
  "vector_warnings rt expected index vector = snd (check_vector rt expected index vector ([], []))"

text \<open>\<open>vector.length\<close> of an array.\<close>

fun array_length :: "json \<Rightarrow> nat" where
  "array_length (JArr elems) = length elems"
| "array_length v = 0"

text \<open>An array of numbers: an array none of whose elements the non-number filter keeps.\<close>

definition number_array :: "js_runtime \<Rightarrow> json \<Rightarrow> bool" where
  "number_array rt vector =
     (case vector of JArr elems \<Rightarrow> filter (non_number rt) elems = [] | _ \<Rightarrow> False)"

text \<open>An array of numbers that has the expected length.\<close>

definition numeric_vector :: "js_runtime \<Rightarrow> nat \<Rightarrow> json \<Rightarrow> bool" where
  "numeric_vector rt expected vector =
     (number_array rt vector \<and> array_length vector = expected)"

text \<open>The same, with no element beyond the threshold either.\<close>

definition calm_vector :: "js_runtime \<Rightarrow> nat \<Rightarrow> json \<Rightarrow> bool" where
  "calm_vector rt expected vector =
     (numeric_vector rt expected vector \<and>
      (case vector of JArr elems \<Rightarrow> filter (math_abs_gt_100 rt) elems = [] | _ \<Rightarrow> False))"

section \<open>Exceptions, the outside world and effects\<close>

text \<open>
  A thrown value: an \<open>Error\<close> object with its \<open>name\<close> and \<open>message\<close>, or any other
  value, kept as what \<open>String(value)\<close> gives.
\<close>

datatype thrown = Error string string | NonError string

text \<open>\<open>new Error(message)\<close>\<close>

definition new_Error :: "string \<Rightarrow> thrown" where
  "new_Error message = Error ''Error'' message"

text \<open>\<open>error instanceof Error ? error.message : String(error)\<close>\<close>

fun error_message :: "thrown \<Rightarrow> string" where
  "error_message (Error name message) = message"
| "error_message (NonError s) = s"

text \<open>
  \<open>`${error}`\<close>: \<open>Error.prototype.toString\<close> joins name and message with a colon,
  and gives the other one alone when either is empty.
\<close>

fun error_toString :: "thrown \<Rightarrow> string" where
  "error_toString (Error name message) =
     (if name = [] then message else if message = [] then name
      else name @ '': '' @ message)"
| "error_toString (NonError s) = s"

text \<open>A point as \<open>addDocuments\<close> passes it to the store client.\<close>

record point =
  point_id :: string
  point_vector :: json
  point_payload :: json

text \<open>A scored point as the store client's \<open>search\<close> returns it.\<close>

record scored_point =
  sp_id :: json
  sp_score :: jsnum
  sp_payload :: json
  sp_vector :: json

text \<open>
  \<open>config.params.vectors\<close> of the store client's \<open>getCollection\<close> response: absent,
  the parameters of the single unnamed vector (its size, its distance when given), or a
  map of named vectors, which has no \<open>size\<close> of its own (\<open>'size' in vectorConfig\<close>
  is false for it, short of a vector that is itself named \<open>size\<close>).
\<close>

datatype vectors_config =
    VectorsAbsent
  | VectorParams nat "string option"
  | NamedVectors

text \<open>A document as the text splitter's \<open>createDocuments\<close> returns it.\<close>

record document =
  pageContent :: string
  doc_metadata :: json

text \<open>
  Every call the process makes to a collaborator outside the repository: the store
  client, the HTTP client, the in-process embedding library, the file system, the text
  splitter and the identifier generator.
\<close>

datatype call =
    GetCollections
  | GetCollection string
  | CreateCollection string nat
  | Upsert string "point list"
  | DeleteCollection string
  | SearchPoints string json jsnum
  | AxiosPost string string "string list"
  | FastEmbed string "string list"
  | ReadFileSync string
  | CreateDocuments jsnum jsnum string
  | Uuidv4

text \<open>
  The collaborators themselves. What each one answers may depend on every call made
  before (the history), so a store that changes, a model that is swapped and a network
  that fails now and then are all instances. \<open>process_env\<close> is \<open>process.env\<close>, and
  \<open>splitter_rejects\<close> is the argument check of the text splitter's constructor.
\<close>

record external =
  client_getCollections :: "call list \<Rightarrow> thrown + string list option"
  client_getCollection :: "call list \<Rightarrow> string \<Rightarrow> thrown + vectors_config"
  client_createCollection :: "call list \<Rightarrow> string \<Rightarrow> nat \<Rightarrow> thrown + unit"
  client_upsert :: "call list \<Rightarrow> string \<Rightarrow> point list \<Rightarrow> thrown + unit"
  client_deleteCollection :: "call list \<Rightarrow> string \<Rightarrow> thrown + unit"
  client_search :: "call list \<Rightarrow> string \<Rightarrow> json \<Rightarrow> jsnum \<Rightarrow> thrown + scored_point list"
  axios_post :: "call list \<Rightarrow> string \<Rightarrow> string \<Rightarrow> string list \<Rightarrow> thrown + json"
  fastembed_embed :: "call list \<Rightarrow> string \<Rightarrow> string list \<Rightarrow> thrown + jsnum list list"
  readFileSync :: "call list \<Rightarrow> string \<Rightarrow> thrown + string"
  splitter_rejects :: "jsnum \<Rightarrow> jsnum \<Rightarrow> thrown option"
  createDocuments :: "call list \<Rightarrow> jsnum \<Rightarrow> jsnum \<Rightarrow> string \<Rightarrow> thrown + document list"
  uuidv4 :: "call list \<Rightarrow> string"
  process_env :: "string \<Rightarrow> string option"
  runtime :: js_runtime

text \<open>
  The text processor of the server (\<open>TextProcessor\<close>): its two numbers and the
  splitter it holds, which is known by the two numbers it was built with.
\<close>

record TextProcessor =
  chunkSize :: jsnum
  chunkOverlap :: jsnum
  splitter :: "jsnum \<times> jsnum"

text \<open>
  The mutable state of the server process: the history of outside calls, the static
  \<open>OllamaEmbeddingService.dimensionCache\<close> and the server's text processor.
\<close>

record world =
  calls :: "call list"
  dimensionCache :: "string \<Rightarrow> nat option"
  textProcessor :: TextProcessor

text \<open>
  An asynchronous function of the source: from the state before to what it returns or
  throws (\<open>Inl\<close>) and the state after.
\<close>

type_synonym 'a io = "world \<Rightarrow> (thrown + 'a) \<times> world"

definition io_return :: "'a \<Rightarrow> 'a io" where
  "io_return x w = (Inr x, w)"

definition io_throw :: "thrown \<Rightarrow> 'a io" where
  "io_throw e w = (Inl e, w)"

definition io_bind :: "'a io \<Rightarrow> ('a \<Rightarrow> 'b io) \<Rightarrow> 'b io" where
  "io_bind m f w = (case m w of (Inl e, w') \<Rightarrow> (Inl e, w') | (Inr x, w') \<Rightarrow> f x w')"

text \<open>\<open>try { m } catch (error) { h(error) }\<close>\<close>

definition io_catch :: "'a io \<Rightarrow> (thrown \<Rightarrow> 'a io) \<Rightarrow> 'a io" where
  "io_catch m h w = (case m w of (Inl e, w') \<Rightarrow> h e w' | (Inr x, w') \<Rightarrow> (Inr x, w'))"

text \<open>A value that is already a result or an exception, with no effect.\<close>

definition io_lift :: "thrown + 'a \<Rightarrow> 'a io" where
  "io_lift r w = (r, w)"

text \<open>
  One call to a collaborator: its answer is read off the history so far, and the call
  joins the history.
\<close>

definition outside :: "call \<Rightarrow> (call list \<Rightarrow> thrown + 'a) \<Rightarrow> 'a io" where
  "outside c answer w = (answer (calls w), w\<lparr>calls := calls w @ [c]\<rparr>)"

section \<open>The store service (\<open>DefaultQdrantService\<close>)\<close>

record SearchResult =
  sr_id :: string
  sr_score :: jsnum
  sr_payload :: json
  sr_vector :: json

record CollectionInfo =
  ci_vectorSize :: nat
  ci_distance :: string

text \<open>
  The interface the validator and the server see. \<open>search\<close> takes its optional
  \<open>limit\<close> as an option.
\<close>

record QdrantService =
  listCollections :: "string list io"
  createCollection :: "string \<Rightarrow> nat \<Rightarrow> unit io"
  addDocuments :: "string \<Rightarrow> point list \<Rightarrow> unit io"
  deleteCollection :: "string \<Rightarrow> unit io"
  search :: "string \<Rightarrow> json \<Rightarrow> jsnum option \<Rightarrow> SearchResult list io"
  collectionExists :: "string \<Rightarrow> bool io"
  getCollectionInfo :: "string \<Rightarrow> CollectionInfo option io"

definition handleQdrantError :: "thrown \<Rightarrow> string \<Rightarrow> 'a io" where
  "handleQdrantError error operation =
     io_throw (new_Error (''Failed to '' @ operation @ '': '' @ error_message error))"

definition Default_listCollections :: "external \<Rightarrow> string list io" where
  "Default_listCollections X =
     io_catch
       (io_bind (outside GetCollections (client_getCollections X))
          (\<lambda>response. io_return (case response of None \<Rightarrow> [] | Some names \<Rightarrow> names)))
       (\<lambda>error. handleQdrantError error ''list collections'')"

definition Default_createCollection :: "external \<Rightarrow> string \<Rightarrow> nat \<Rightarrow> unit io" where
  "Default_createCollection X name vectorSize =
     io_catch
       (outside (CreateCollection name vectorSize)
          (\<lambda>h. client_createCollection X h name vectorSize))
       (\<lambda>error. handleQdrantError error ''create collection'')"

definition Default_addDocuments :: "external \<Rightarrow> string \<Rightarrow> point list \<Rightarrow> unit io" where
  "Default_addDocuments X collection documents =
     io_catch
       (outside (Upsert collection documents) (\<lambda>h. client_upsert X h collection documents))
       (\<lambda>error. handleQdrantError error ''add documents'')"

definition Default_deleteCollection :: "external \<Rightarrow> string \<Rightarrow> unit io" where
  "Default_deleteCollection X name =
     io_catch
       (outside (DeleteCollection name) (\<lambda>h. client_deleteCollection X h name))
       (\<lambda>error. handleQdrantError error ''delete collection'')"

text \<open>
  \<open>id: String(point.id)\<close>, \<open>payload: point.payload || {}\<close>; \<open>point.vector\<close> is kept
  or, when it is falsy, replaced by \<open>undefined\<close>.
\<close>

definition to_SearchResult :: "js_runtime \<Rightarrow> scored_point \<Rightarrow> SearchResult" where
  "to_SearchResult rt p =
     \<lparr> sr_id = js_String rt (sp_id p),
       sr_score = sp_score p,
       sr_payload = js_or (sp_payload p) (JObj []),
       sr_vector = js_or (sp_vector p) JUndefined \<rparr>"

text \<open>The default parameter \<open>limit: number = 10\<close> applies when the argument is undefined.\<close>

definition Default_search ::
  "external \<Rightarrow> string \<Rightarrow> json \<Rightarrow> jsnum option \<Rightarrow> SearchResult list io" where
  "Default_search X collection vector limit =
     (let limit' = (case limit of None \<Rightarrow> Fin 10 | Some n \<Rightarrow> n) in
      io_catch
        (io_bind
           (outside (SearchPoints collection vector limit')
              (\<lambda>h. client_search X h collection vector limit'))
           (\<lambda>response. io_return (map (to_SearchResult (runtime X)) response)))
        (\<lambda>error. handleQdrantError error ''search collection''))"

text \<open>
  \<open>collectionExists\<close> calls the service's own \<open>listCollections\<close> and turns whatever
  that throws into \<open>false\<close>.
\<close>

definition Default_collectionExists :: "external \<Rightarrow> string \<Rightarrow> bool io" where
  "Default_collectionExists X name =
     io_catch
       (io_bind (Default_listCollections X)
          (\<lambda>collections. io_return (name \<in> set collections)))
       (\<lambda>error. io_return False)"

definition Default_getCollectionInfo :: "external \<Rightarrow> string \<Rightarrow> CollectionInfo option io" where
  "Default_getCollectionInfo X name =
     io_catch
       (io_bind (outside (GetCollection name) (\<lambda>h. client_getCollection X h name))
          (\<lambda>vectors.
             io_return
               (case vectors of
                  VectorParams vsize distance \<Rightarrow>
                    Some \<lparr> ci_vectorSize = vsize,
                           ci_distance =
                             (case distance of
                                None \<Rightarrow> ''Cosine''
                              | Some d \<Rightarrow> if d = [] then ''Cosine'' else d) \<rparr>
                | _ \<Rightarrow> None)))
       (\<lambda>error. io_return None)"

definition DefaultQdrantService :: "external \<Rightarrow> QdrantService" where
  "DefaultQdrantService X =
     \<lparr> listCollections = Default_listCollections X,
       createCollection = Default_createCollection X,
       addDocuments = Default_addDocuments X,
       deleteCollection = Default_deleteCollection X,
       search = Default_search X,
       collectionExists = Default_collectionExists X,
       getCollectionInfo = Default_getCollectionInfo X \<rparr>"

section \<open>Reading properties\<close>

text \<open>
  \<open>v.k\<close> for one of the property names the program reads (\<open>data\<close>, \<open>embedding\<close>,
  \<open>embeddings\<close>, \<open>text\<close>, ...): a TypeError on \<open>undefined\<close> and \<open>null\<close>, the field
  of an object, and \<open>undefined\<close> on everything else.
\<close>

fun getprop :: "json \<Rightarrow> string \<Rightarrow> thrown + json" where
  "getprop JUndefined k =
     Inl (Error ''TypeError''
            (''Cannot read properties of undefined (reading '' @ [CHR 0x27] @ k @ [CHR 0x27] @ '')''))"
| "getprop JNull k =
     Inl (Error ''TypeError''
            (''Cannot read properties of null (reading '' @ [CHR 0x27] @ k @ [CHR 0x27] @ '')''))"
| "getprop (JObj kvs) k = Inr (case map_of kvs k of None \<Rightarrow> JUndefined | Some v \<Rightarrow> v)"
| "getprop v k = Inr JUndefined"

text \<open>\<open>v?.k\<close>: \<open>undefined\<close> where \<open>v.k\<close> would throw.\<close>

definition opt_prop :: "json \<Rightarrow> string \<Rightarrow> json" where
  "opt_prop v k = (case getprop v k of Inl e \<Rightarrow> JUndefined | Inr x \<Rightarrow> x)"

text \<open>\<open>parts.join(sep)\<close>\<close>

fun join :: "string \<Rightarrow> string list \<Rightarrow> string" where
  "join sep [] = []"
| "join sep [x] = x"
| "join sep (x # y # rest) = x @ sep @ join sep (y # rest)"

text \<open>\<open>s || d\<close> on strings, and on strings that may be undefined.\<close>

definition or_str :: "string \<Rightarrow> string \<Rightarrow> string" where
  "or_str s d = (if s = [] then d else s)"

definition or_default :: "string option \<Rightarrow> string \<Rightarrow> string" where
  "or_default s d = (case s of None \<Rightarrow> d | Some v \<Rightarrow> or_str v d)"

section \<open>Embedding providers\<close>

datatype EmbeddingService = openai | openrouter | fastembed | ollama

record EmbeddingServiceConfig =
  cfg_type :: EmbeddingService
  apiKey :: "string option"
  endpoint :: "string option"
  model :: "string option"

text \<open>
  The Ollama class modelled here is the one with the dimension cache and
  \<open>initializeVectorSize\<close>, which \<open>createAndInitializeEmbeddingService\<close> calls. (The
  sources also hold an earlier copy of the class with the constant size 768 and the
  \<open>/api/embeddings\<close> endpoint; nothing calls for it once the method exists.)
\<close>

text \<open>
  The four provider classes with their fields: key, endpoint and model for the two
  remote ones; endpoint, model and the private \<open>_vectorSize\<close> (\<open>null\<close> until it is
  initialised) for Ollama; the model for FastEmbed.
\<close>

datatype EmbeddingGenerator =
    OpenAIEmbeddingService string string string
  | OpenRouterEmbeddingService string string string
  | OllamaEmbeddingService string string "nat option"
  | FastEmbedService string

text \<open>
  The constructors with their \<open>validateConfig\<close>. Each one fills in its defaults first,
  so only the missing key can fail.
\<close>

definition new_OpenAIEmbeddingService ::
  "string \<Rightarrow> string option \<Rightarrow> string option \<Rightarrow> thrown + EmbeddingGenerator" where
  "new_OpenAIEmbeddingService key ep m =
     (let ep' = or_default ep ''https://api.openai.com/v1'';
          m' = or_default m ''text-embedding-ada-002''
      in if key = [] then Inl (new_Error ''OpenAI API key is required'')
         else if ep' = [] then Inl (new_Error ''OpenAI endpoint is required'')
         else Inr (OpenAIEmbeddingService key ep' m'))"

definition new_OpenRouterEmbeddingService ::
  "string \<Rightarrow> string option \<Rightarrow> string option \<Rightarrow> thrown + EmbeddingGenerator" where
  "new_OpenRouterEmbeddingService key ep m =
     (let ep' = or_default ep ''https://openrouter.ai/api/v1'';
          m' = or_default m ''openai/text-embedding-ada-002''
      in if key = [] then Inl (new_Error ''OpenRouterEmbeddingService requires an API key'')
         else Inr (OpenRouterEmbeddingService key ep' m'))"

definition new_OllamaEmbeddingService ::
  "string option \<Rightarrow> string option \<Rightarrow> thrown + EmbeddingGenerator" where
  "new_OllamaEmbeddingService ep m =
     (let ep' = or_default ep ''http://host.docker.internal:11434'';
          m' = or_default m ''nomic-embed-text''
      in if ep' = [] then Inl (new_Error ''Ollama endpoint is required'')
         else Inr (OllamaEmbeddingService ep' m' None))"

definition new_FastEmbedService :: "string option \<Rightarrow> thrown + EmbeddingGenerator" where
  "new_FastEmbedService m = Inr (FastEmbedService (or_default m ''BAAI/bge-small-en''))"

text \<open>
  \<open>createEmbeddingService\<close>. \<open>!config.apiKey\<close> holds for a missing key and for
  the empty string.
\<close>

definition createEmbeddingService :: "EmbeddingServiceConfig \<Rightarrow> thrown + EmbeddingGenerator" where
  "createEmbeddingService config =
     (case cfg_type config of
        openai \<Rightarrow>
          (case apiKey config of
             None \<Rightarrow> Inl (new_Error ''OpenAI API key is required'')
           | Some key \<Rightarrow>
               if key = [] then Inl (new_Error ''OpenAI API key is required'')
               else new_OpenAIEmbeddingService key (endpoint config) (model config))
      | openrouter \<Rightarrow>
          (case apiKey config of
             None \<Rightarrow> Inl (new_Error ''OpenRouter API key is required'')
           | Some key \<Rightarrow>
               if key = [] then Inl (new_Error ''OpenRouter API key is required'')
               else new_OpenRouterEmbeddingService key (endpoint config) (model config))
      | ollama \<Rightarrow> new_OllamaEmbeddingService (endpoint config) (model config)
      | fastembed \<Rightarrow> new_FastEmbedService (model config))"

text \<open>
  The property \<open>vectorSize\<close>: a constant of the class for three providers, a getter
  that throws while \<open>_vectorSize\<close> is \<open>null\<close> for Ollama.
\<close>

fun vectorSize :: "EmbeddingGenerator \<Rightarrow> thrown + nat" where
  "vectorSize (OpenAIEmbeddingService key ep m) = Inr 1536"
| "vectorSize (OpenRouterEmbeddingService key ep m) = Inr 1536"
| "vectorSize (FastEmbedService m) = Inr 384"
| "vectorSize (OllamaEmbeddingService ep m None) =
     Inl (new_Error ''Vector size not initialized. Call initializeVectorSize() first.'')"
| "vectorSize (OllamaEmbeddingService ep m (Some n)) = Inr n"

subsection \<open>Ollama: detecting and caching the dimension\<close>

definition detectModelDimensions :: "external \<Rightarrow> string \<Rightarrow> string \<Rightarrow> json list io" where
  "detectModelDimensions X ep m =
     io_bind
       (outside (AxiosPost (ep @ ''/api/embed'') (or_str m ''nomic-embed-text'') [''test''])
          (\<lambda>h. axios_post X h (ep @ ''/api/embed'') (or_str m ''nomic-embed-text'') [''test'']))
       (\<lambda>data.
          io_bind (io_lift (getprop data ''embeddings''))
            (\<lambda>embeddings.
               case embeddings of
                 JArr (first # others) \<Rightarrow>
                   (case first of
                      JArr elems \<Rightarrow>
                        if list_all typeof_number elems then io_return elems
                        else io_throw (new_Error
                          ''Invalid embedding format in Ollama response during dimension detection'')
                    | _ \<Rightarrow>
                        io_throw (new_Error
                          ''Invalid embedding format in Ollama response during dimension detection''))
               | _ \<Rightarrow>
                   io_throw (new_Error
                     ''Invalid response from Ollama API during dimension detection'')))"

text \<open>\<open>OllamaEmbeddingService.dimensionCache.get(key)\<close> and \<open>.set(key, size)\<close>\<close>

definition cache_get :: "string \<Rightarrow> nat option io" where
  "cache_get k w = (Inr (dimensionCache w k), w)"

definition cache_set :: "string \<Rightarrow> nat \<Rightarrow> unit io" where
  "cache_set k n w = (Inr (), w\<lparr>dimensionCache := (dimensionCache w)(k \<mapsto> n)\<rparr>)"

definition modelKey :: "string \<Rightarrow> string \<Rightarrow> string" where
  "modelKey ep m = ep @ '':'' @ or_str m ''nomic-embed-text''"

text \<open>
  \<open>initializeVectorSize\<close> of an Ollama provider with the given endpoint and model. It
  returns the value it assigns to \<open>this._vectorSize\<close>. \<open>if (cachedSize)\<close> is a test
  for truthiness: it fails on a missing entry and on a cached \<open>0\<close>.
\<close>

definition initializeVectorSize :: "external \<Rightarrow> string \<Rightarrow> string \<Rightarrow> nat io" where
  "initializeVectorSize X ep m =
     io_bind (cache_get (modelKey ep m))
       (\<lambda>cachedSize.
          case (case cachedSize of None \<Rightarrow> None | Some n \<Rightarrow> if n = 0 then None else Some n) of
            Some n \<Rightarrow> io_return n
          | None \<Rightarrow>
              io_catch
                (io_bind (detectModelDimensions X ep m)
                   (\<lambda>testEmbedding.
                      io_bind (cache_set (modelKey ep m) (length testEmbedding))
                        (\<lambda>u. io_return (length testEmbedding))))
                (\<lambda>error.
                   io_throw (new_Error
                     (''Failed to detect vector dimensions for model ''
                        @ or_str m ''nomic-embed-text'' @ '': '' @ error_toString error))))"

subsection \<open>Generating embeddings\<close>

text \<open>
  \<open>response.data.data.map(item => ...)\<close> of the two remote providers: the first item
  without an array under \<open>embedding\<close> throws.
\<close>

fun item_embeddings :: "string \<Rightarrow> json list \<Rightarrow> thrown + json list" where
  "item_embeddings who [] = Inr []"
| "item_embeddings who (item # items) =
     (case getprop item ''embedding'' of
        Inl e \<Rightarrow> Inl e
      | Inr emb \<Rightarrow>
          if \<not> truthy emb \<or> \<not> isArray emb
          then Inl (new_Error (''Invalid embedding format in '' @ who @ '' response''))
          else (case item_embeddings who items of
                  Inl e \<Rightarrow> Inl e
                | Inr rest \<Rightarrow> Inr (emb # rest)))"

definition remote_generateEmbeddings ::
  "external \<Rightarrow> string \<Rightarrow> string \<Rightarrow> string \<Rightarrow> string \<Rightarrow> string list \<Rightarrow> json list io" where
  "remote_generateEmbeddings X who defaultModel ep m texts =
     io_bind
       (outside (AxiosPost (ep @ ''/embeddings'') (or_str m defaultModel) texts)
          (\<lambda>h. axios_post X h (ep @ ''/embeddings'') (or_str m defaultModel) texts))
       (\<lambda>data.
          io_bind (io_lift (getprop data ''data''))
            (\<lambda>items.
               case items of
                 JArr xs \<Rightarrow> io_lift (item_embeddings who xs)
               | _ \<Rightarrow> io_throw (new_Error (''Invalid response from '' @ who @ '' API''))))"

text \<open>
  The \<open>forEach\<close> of Ollama's \<open>generateEmbeddings\<close>: every embedding is an array of
  numbers of length \<open>_vectorSize\<close>, or the first one that is not throws.
\<close>

fun check_embeddings :: "nat option \<Rightarrow> nat \<Rightarrow> json list \<Rightarrow> thrown + unit" where
  "check_embeddings vs index [] = Inr ()"
| "check_embeddings vs index (embedding # rest) =
     (case embedding of
        JArr elems \<Rightarrow>
          if \<not> list_all typeof_number elems
          then Inl (new_Error (''Invalid embedding format at index '' @ string_of_nat index
                      @ '' in Ollama response''))
          else if Some (length elems) \<noteq> vs
          then Inl (new_Error (''Dimension mismatch at index '' @ string_of_nat index
                      @ '': expected ''
                      @ (case vs of None \<Rightarrow> ''null'' | Some n \<Rightarrow> string_of_nat n)
                      @ '', got '' @ string_of_nat (length elems)))
          else check_embeddings vs (Suc index) rest
      | _ \<Rightarrow>
          Inl (new_Error (''Invalid embedding format at index '' @ string_of_nat index
                 @ '' in Ollama response'')))"

text \<open>
  \<open>generateEmbeddings\<close> returns the vectors and the provider object as the call leaves
  it (Ollama initialises its size first when that is still \<open>null\<close>). A provider object
  lives inside one handler call, and the handler drops it when anything throws, so no
  object is returned with an exception. FastEmbed's lazily built embedder is part of
  the library call.
\<close>

fun generateEmbeddings ::
  "external \<Rightarrow> EmbeddingGenerator \<Rightarrow> string list \<Rightarrow> (json list \<times> EmbeddingGenerator) io" where
  "generateEmbeddings X (OpenAIEmbeddingService key ep m) texts =
     io_bind (remote_generateEmbeddings X ''OpenAI'' ''text-embedding-ada-002'' ep m texts)
       (\<lambda>vectors. io_return (vectors, OpenAIEmbeddingService key ep m))"
| "generateEmbeddings X (OpenRouterEmbeddingService key ep m) texts =
     io_bind
       (remote_generateEmbeddings X ''OpenRouter'' ''openai/text-embedding-ada-002'' ep m texts)
       (\<lambda>vectors. io_return (vectors, OpenRouterEmbeddingService key ep m))"
| "generateEmbeddings X (FastEmbedService m) texts =
     io_bind
       (outside (FastEmbed (or_str m ''BAAI/bge-small-en'') texts)
          (\<lambda>h. fastembed_embed X h (or_str m ''BAAI/bge-small-en'') texts))
       (\<lambda>embeddings.
          io_return (map (\<lambda>embedding. JArr (map JNum embedding)) embeddings, FastEmbedService m))"
| "generateEmbeddings X (OllamaEmbeddingService ep m vs) texts =
     io_bind
       (case vs of
          None \<Rightarrow> io_bind (initializeVectorSize X ep m) (\<lambda>n. io_return (Some n))
        | Some n \<Rightarrow> io_return (Some n))
       (\<lambda>vs'.
          io_bind
            (outside (AxiosPost (ep @ ''/api/embed'') (or_str m ''nomic-embed-text'') texts)
               (\<lambda>h. axios_post X h (ep @ ''/api/embed'') (or_str m ''nomic-embed-text'') texts))
            (\<lambda>data.
               io_bind (io_lift (getprop data ''embeddings''))
                 (\<lambda>embeddings.
                    case embeddings of
                      JArr es \<Rightarrow>
                        io_bind (io_lift (check_embeddings vs' 0 es))
                          (\<lambda>u. io_return (es, OllamaEmbeddingService ep m vs'))
                    | _ \<Rightarrow> io_throw (new_Error ''Invalid response from Ollama API''))))"

text \<open>
  \<open>createAndInitializeEmbeddingService\<close>: only the Ollama class has an
  \<open>initializeVectorSize\<close> method.
\<close>

definition createAndInitializeEmbeddingService ::
  "external \<Rightarrow> EmbeddingServiceConfig \<Rightarrow> EmbeddingGenerator io" where
  "createAndInitializeEmbeddingService X config =
     io_bind (io_lift (createEmbeddingService config))
       (\<lambda>service.
          case service of
            OllamaEmbeddingService ep m vs \<Rightarrow>
              io_bind (initializeVectorSize X ep m)
                (\<lambda>n. io_return (OllamaEmbeddingService ep m (Some n)))
          | _ \<Rightarrow> io_return service)"

section \<open>Compatibility validation (\<open>VectorValidationService.validateEmbeddingCompatibility\<close>)\<close>

datatype validation_action = create_collection | compatible | size_mismatch | action_error

record VectorValidationResult =
  isValid :: bool
  reason :: string
  expectedVectorSize :: nat
  actualVectorSize :: "nat option"
  action :: validation_action
  suggestedActions :: "string list option"

definition mismatch_suggestions :: "nat \<Rightarrow> nat \<Rightarrow> string list" where
  "mismatch_suggestions collectionSize serviceSize =
     [''Use a different embedding service that produces '' @ string_of_nat collectionSize
        @ ''-dimensional vectors'',
      ''Create a new collection with '' @ string_of_nat serviceSize @ ''-dimensional vectors'',
      ''Delete and recreate the collection (WARNING: this will lose all data)'']"

text \<open>
  The method, over the store service it was constructed with. Every read of
  \<open>embeddingService.vectorSize\<close> runs the getter, inside the \<open>try\<close> and again inside
  the \<open>catch\<close>.
\<close>

definition validateEmbeddingCompatibility ::
  "QdrantService \<Rightarrow> string \<Rightarrow> EmbeddingGenerator \<Rightarrow> VectorValidationResult io" where
  "validateEmbeddingCompatibility qdrantService collection embeddingService =
     io_catch
       (io_bind (collectionExists qdrantService collection)
          (\<lambda>collExists.
             if \<not> collExists then
               io_bind (io_lift (vectorSize embeddingService))
                 (\<lambda>serviceSize.
                    io_return
                      \<lparr> isValid = True,
                        reason = ''Collection does not exist - will be created with correct dimensions'',
                        expectedVectorSize = serviceSize,
                        actualVectorSize = None,
                        action = create_collection,
                        suggestedActions = None \<rparr>)
             else
               io_bind (getCollectionInfo qdrantService collection)
                 (\<lambda>collectionInfo.
                    case collectionInfo of
                      None \<Rightarrow>
                        io_bind (io_lift (vectorSize embeddingService))
                          (\<lambda>serviceSize.
                             io_return
                               \<lparr> isValid = False,
                                 reason = ''Could not retrieve collection information'',
                                 expectedVectorSize = serviceSize,
                                 actualVectorSize = None,
                                 action = action_error,
                                 suggestedActions = None \<rparr>)
                    | Some info \<Rightarrow>
                        io_bind (io_lift (vectorSize embeddingService))
                          (\<lambda>serviceSize.
                             if ci_vectorSize info \<noteq> serviceSize then
                               io_return
                                 \<lparr> isValid = False,
                                   reason = ''Vector size mismatch: collection expects ''
                                     @ string_of_nat (ci_vectorSize info)
                                     @ '', but embedding service produces ''
                                     @ string_of_nat serviceSize,
                                   expectedVectorSize = serviceSize,
                                   actualVectorSize = Some (ci_vectorSize info),
                                   action = size_mismatch,
                                   suggestedActions =
                                     Some (mismatch_suggestions (ci_vectorSize info) serviceSize) \<rparr>
                             else
                               io_return
                                 \<lparr> isValid = True,
                                   reason = ''Vector dimensions are compatible'',
                                   expectedVectorSize = serviceSize,
                                   actualVectorSize = Some (ci_vectorSize info),
                                   action = compatible,
                                   suggestedActions = None \<rparr>))))
       (\<lambda>error.
          io_bind (io_lift (vectorSize embeddingService))
            (\<lambda>serviceSize.
               io_return
                 \<lparr> isValid = False,
                   reason = ''Validation failed: '' @ error_message error,
                   expectedVectorSize = serviceSize,
                   actualVectorSize = None,
                   action = action_error,
                   suggestedActions = None \<rparr>))"

section \<open>The text processor (\<open>TextProcessor\<close>)\<close>

record chunk_metadata =
  cm_index :: nat
  cm_source :: "string option"
  cm_start :: json
  cm_end :: json

record TextChunk =
  chunk_text :: string
  chunk_meta :: chunk_metadata

text \<open>\<open>new TextProcessor()\<close> with its default arguments.\<close>

definition new_TextProcessor :: TextProcessor where
  "new_TextProcessor =
     \<lparr> chunkSize = Fin 1000, chunkOverlap = Fin 200, splitter = (Fin 1000, Fin 200) \<rparr>"

text \<open>
  The two setters assign the field first and build the new splitter second, so a
  splitter the library refuses leaves the field changed and the old splitter in place.
\<close>

definition setChunkSize :: "external \<Rightarrow> jsnum \<Rightarrow> unit io" where
  "setChunkSize X n w =
     (let tp = (textProcessor w)\<lparr>chunkSize := n\<rparr> in
      case splitter_rejects X (chunkSize tp) (chunkOverlap tp) of
        Some e \<Rightarrow> (Inl e, w\<lparr>textProcessor := tp\<rparr>)
      | None \<Rightarrow>
          (Inr (), w\<lparr>textProcessor := tp\<lparr>splitter := (chunkSize tp, chunkOverlap tp)\<rparr>\<rparr>))"

definition setChunkOverlap :: "external \<Rightarrow> jsnum \<Rightarrow> unit io" where
  "setChunkOverlap X n w =
     (let tp = (textProcessor w)\<lparr>chunkOverlap := n\<rparr> in
      case splitter_rejects X (chunkSize tp) (chunkOverlap tp) of
        Some e \<Rightarrow> (Inl e, w\<lparr>textProcessor := tp\<rparr>)
      | None \<Rightarrow>
          (Inr (), w\<lparr>textProcessor := tp\<lparr>splitter := (chunkSize tp, chunkOverlap tp)\<rparr>\<rparr>))"

definition to_chunk :: "string option \<Rightarrow> nat \<times> document \<Rightarrow> TextChunk" where
  "to_chunk source p =
     \<lparr> chunk_text = pageContent (snd p),
       chunk_meta =
         \<lparr> cm_index = fst p,
           cm_source = source,
           cm_start = opt_prop (doc_metadata (snd p)) ''start'',
           cm_end = opt_prop (doc_metadata (snd p)) ''end'' \<rparr> \<rparr>"

definition processText :: "external \<Rightarrow> string \<Rightarrow> string option \<Rightarrow> TextChunk list io" where
  "processText X content source w =
     io_bind
       (outside
          (CreateDocuments (fst (splitter (textProcessor w))) (snd (splitter (textProcessor w)))
             content)
          (\<lambda>h. createDocuments X h (fst (splitter (textProcessor w)))
                  (snd (splitter (textProcessor w))) content))
       (\<lambda>documents. io_return (map (to_chunk source) (enumerate 0 documents)))
       w"

definition processFile :: "external \<Rightarrow> string \<Rightarrow> string \<Rightarrow> TextChunk list io" where
  "processFile X content filename = processText X content (Some filename)"

section \<open>The server (\<open>BetterQdrantServer\<close>)\<close>

record AddDocumentsArgs =
  filePath :: string
  add_collection :: string
  add_embeddingService :: EmbeddingService
  arg_chunkSize :: "jsnum option"
  arg_chunkOverlap :: "jsnum option"

record SearchArgs =
  query :: string
  search_collection :: string
  search_embeddingService :: EmbeddingService
  limit :: "jsnum option"

text \<open>What a handler returns: the one text item of \<open>content\<close>, and \<open>isError\<close>.\<close>

record ToolResult =
  content_text :: string
  isError :: bool

text \<open>\<open>args.embeddingService.toUpperCase()\<close>\<close>

fun upper_name :: "EmbeddingService \<Rightarrow> string" where
  "upper_name openai = ''OPENAI''"
| "upper_name openrouter = ''OPENROUTER''"
| "upper_name fastembed = ''FASTEMBED''"
| "upper_name ollama = ''OLLAMA''"

text \<open>The configuration both handlers read from \<open>process.env\<close>.\<close>

definition config_from_env :: "external \<Rightarrow> EmbeddingService \<Rightarrow> EmbeddingServiceConfig" where
  "config_from_env X service =
     \<lparr> cfg_type = service,
       apiKey = process_env X (upper_name service @ ''_API_KEY''),
       endpoint = process_env X (upper_name service @ ''_ENDPOINT''),
       model = process_env X (upper_name service @ ''_MODEL'') \<rparr>"

text \<open>
  The state a new server starts in: no outside call made, an empty dimension cache,
  a text processor with the default sizes.
\<close>

definition new_server :: world where
  "new_server = \<lparr> calls = [], dimensionCache = (\<lambda>k. None), textProcessor = new_TextProcessor \<rparr>"

definition compatibility_error_text :: "VectorValidationResult \<Rightarrow> string" where
  "compatibility_error_text r =
     ''Embedding compatibility error: '' @ reason r
       @ (case suggestedActions r of
            None \<Rightarrow> []
          | Some actions \<Rightarrow>
              nl @ nl @ ''Suggested actions:'' @ nl
                @ join nl (map (\<lambda>a. ''- '' @ a) actions))"

text \<open>\<open>embeddings[i]\<close>: \<open>undefined\<close> past the end of the array.\<close>

definition js_nth :: "json list \<Rightarrow> nat \<Rightarrow> json" where
  "js_nth xs i = (if i < length xs then xs ! i else JUndefined)"

text \<open>\<open>{ text: chunk.text, ...chunk.metadata }\<close>\<close>

definition chunk_payload :: "TextChunk \<Rightarrow> json" where
  "chunk_payload chunk =
     JObj [(''text'', JStr (chunk_text chunk)),
           (''index'', JNum (Fin (real (cm_index (chunk_meta chunk))))),
           (''source'', (case cm_source (chunk_meta chunk) of
                           None \<Rightarrow> JUndefined | Some s \<Rightarrow> JStr s)),
           (''start'', cm_start (chunk_meta chunk)),
           (''end'', cm_end (chunk_meta chunk))]"

text \<open>
  \<open>chunks.map((chunk, i) => ({ id: uuidv4(), vector: embeddings[i], payload }))\<close>:
  one identifier is drawn per chunk, in order.
\<close>

fun make_points :: "external \<Rightarrow> json list \<Rightarrow> (nat \<times> TextChunk) list \<Rightarrow> point list io" where
  "make_points X embeddings [] = io_return []"
| "make_points X embeddings (ic # rest) =
     io_bind (outside Uuidv4 (\<lambda>h. Inr (uuidv4 X h)))
       (\<lambda>uuid.
          io_bind (make_points X embeddings rest)
            (\<lambda>points.
               io_return
                 (\<lparr> point_id = uuid,
                     point_vector = js_nth embeddings (fst ic),
                     point_payload = chunk_payload (snd ic) \<rparr> # points)))"

text \<open>\<open>if (args.chunkSize) this.textProcessor.setChunkSize(args.chunkSize)\<close>\<close>

definition configure ::
  "(jsnum \<Rightarrow> unit io) \<Rightarrow> jsnum option \<Rightarrow> unit io" where
  "configure setter arg =
     (case arg of
        None \<Rightarrow> io_return ()
      | Some n \<Rightarrow> if truthy (JNum n) then setter n else io_return ())"

definition handleAddDocuments :: "external \<Rightarrow> AddDocumentsArgs \<Rightarrow> ToolResult io" where
  "handleAddDocuments X args =
     io_catch
       (io_bind (configure (setChunkSize X) (arg_chunkSize args)) (\<lambda>u1.
        io_bind (configure (setChunkOverlap X) (arg_chunkOverlap args)) (\<lambda>u2.
        io_bind (outside (ReadFileSync (filePath args)) (\<lambda>h. readFileSync X h (filePath args)))
          (\<lambda>content.
        io_bind (processFile X content (filePath args)) (\<lambda>chunks.
        io_bind (createAndInitializeEmbeddingService X
                   (config_from_env X (add_embeddingService args))) (\<lambda>embeddingService.
        io_bind (validateEmbeddingCompatibility (DefaultQdrantService X) (add_collection args)
                   embeddingService) (\<lambda>compatibilityResult.
        if \<not> isValid compatibilityResult then
          io_return \<lparr> content_text = compatibility_error_text compatibilityResult,
                      isError = True \<rparr>
        else
        io_bind (generateEmbeddings X embeddingService (map chunk_text chunks)) (\<lambda>generated.
        io_bind (io_lift (vectorSize (snd generated))) (\<lambda>serviceSize.
        let vectorValidation = validateVectorData (runtime X) (fst generated) serviceSize in
        if \<not> dv_isValid vectorValidation then
          io_return
            \<lparr> content_text =
                ''Vector validation failed:'' @ nl @ join nl (errors vectorValidation)
                  @ (if length (warnings vectorValidation) > 0
                     then nl @ nl @ ''Warnings:'' @ nl @ join nl (warnings vectorValidation)
                     else []),
              isError = True \<rparr>
        else
        io_bind (if action compatibilityResult = create_collection
                 then io_bind (io_lift (vectorSize (snd generated)))
                        (\<lambda>n. createCollection (DefaultQdrantService X) (add_collection args) n)
                 else io_return ()) (\<lambda>u3.
        io_bind (make_points X (fst generated) (enumerate 0 chunks)) (\<lambda>points.
        io_bind (addDocuments (DefaultQdrantService X) (add_collection args) points) (\<lambda>u4.
        io_return
          \<lparr> content_text =
              ''Successfully processed and added '' @ string_of_nat (length chunks)
                @ '' chunks to collection '' @ add_collection args
                @ (if length (warnings vectorValidation) > 0
                   then nl @ nl @ ''Warnings:'' @ nl @ join nl (warnings vectorValidation)
                   else []),
            isError = False \<rparr>))))))))))))
       (\<lambda>error.
          io_return \<lparr> content_text = ''Error adding documents: '' @ error_message error,
                      isError = True \<rparr>)"

text \<open>
  One hit of the result list as the \<open>forEach\<close> of \<open>handleSearch\<close> appends it to
  \<open>responseText\<close>. The payload is truthy (the service put \<open>{}\<close> for a falsy one), so
  reading its properties does not throw.
\<close>

definition format_result :: "js_runtime \<Rightarrow> nat \<times> SearchResult \<Rightarrow> string" where
  "format_result rt ir =
     (let payload = sr_payload (snd ir);
          shown = js_or (js_or (opt_prop payload ''text'') (opt_prop payload ''content''))
                    (JStr (JSON_stringify rt payload));
          source = js_or (js_or (opt_prop payload ''source'')
                            (opt_prop (opt_prop payload ''metadata'') ''source''))
                     (JStr []);
          score = toFixed2 rt (sr_score (snd ir))
      in ''Result '' @ string_of_nat (fst ir + 1) @ '' (Score: '' @ score @ ''):'' @ nl
           @ js_String rt shown @ nl
           @ (if truthy source then ''Source: '' @ js_String rt source @ nl else [])
           @ nl)"

definition format_results :: "js_runtime \<Rightarrow> SearchResult list \<Rightarrow> string" where
  "format_results rt results = concat (map (format_result rt) (enumerate 0 results))"

text \<open>\<open>const [queryEmbedding] = ...\<close>: the first element, \<open>undefined\<close> for an empty array.\<close>

definition first_or_undefined :: "json list \<Rightarrow> json" where
  "first_or_undefined xs = (case xs of [] \<Rightarrow> JUndefined | x # rest \<Rightarrow> x)"

definition handleSearch :: "external \<Rightarrow> SearchArgs \<Rightarrow> ToolResult io" where
  "handleSearch X args =
     io_catch
       (io_bind (createAndInitializeEmbeddingService X
                   (config_from_env X (search_embeddingService args))) (\<lambda>embeddingService.
        io_bind (validateEmbeddingCompatibility (DefaultQdrantService X) (search_collection args)
                   embeddingService) (\<lambda>compatibilityResult.
        if \<not> isValid compatibilityResult then
          io_return \<lparr> content_text = compatibility_error_text compatibilityResult,
                      isError = True \<rparr>
        else
        io_bind (generateEmbeddings X embeddingService [query args]) (\<lambda>generated.
        let queryEmbedding = first_or_undefined (fst generated) in
        io_bind (io_lift (vectorSize (snd generated))) (\<lambda>serviceSize.
        let vectorValidation = validateVectorData (runtime X) [queryEmbedding] serviceSize in
        if \<not> dv_isValid vectorValidation then
          io_return
            \<lparr> content_text =
                ''Query vector validation failed: '' @ join '', '' (errors vectorValidation),
              isError = True \<rparr>
        else
        io_bind (search (DefaultQdrantService X) (search_collection args) queryEmbedding
                   (limit args)) (\<lambda>results.
        let responseText = format_results (runtime X) results;
            responseText1 = (if responseText = [] then ''No results found.'' else responseText);
            responseText2 =
              (if length (warnings vectorValidation) > 0
               then responseText1 @ nl @ ''Query vector warnings:'' @ nl
                      @ join nl (warnings vectorValidation)
               else responseText1)
        in io_return \<lparr> content_text = responseText2, isError = False \<rparr>))))))
       (\<lambda>error.
          io_return \<lparr> content_text = ''Error searching: '' @ error_message error,
                      isError = True \<rparr>)"

section \<open>What a step may do to the state\<close>

text \<open>The calls that change the store: creating or deleting a collection, and upserting.\<close>

fun store_mutation :: "call \<Rightarrow> bool" where
  "store_mutation (CreateCollection name n) = True"
| "store_mutation (Upsert name ps) = True"
| "store_mutation (DeleteCollection name) = True"
| "store_mutation c = False"

text \<open>
  From state \<open>w\<close> to state \<open>w'\<close> the history only grew, and by no call that changes the
  store.
\<close>

definition no_store_mutation :: "world \<Rightarrow> world \<Rightarrow> bool" where
  "no_store_mutation w w' =
     (take (length (calls w)) (calls w') = calls w
      \<and> filter store_mutation (drop (length (calls w)) (calls w')) = [])"

text \<open>
  From state \<open>w\<close> to state \<open>w'\<close> every non-zero dimension in the cache stayed as it was.
\<close>

definition cache_kept :: "world \<Rightarrow> world \<Rightarrow> bool" where
  "cache_kept w w' =
     (\<forall>k n. dimensionCache w k = Some n \<and> n \<noteq> 0 \<longrightarrow> dimensionCache w' k = Some n)"

text \<open>Every run of \<open>m\<close> relates the state before to the state after by \<open>R\<close>.\<close>

definition always :: "(world \<Rightarrow> world \<Rightarrow> bool) \<Rightarrow> 'a io \<Rightarrow> bool" where
  "always R m = (\<forall>w. R w (snd (m w)))"

text \<open>
  The steps of \<open>handleAddDocuments\<close> up to and including the compatibility check, with
  what they leave in scope: the chunks, the provider and the verdict.
\<close>

definition add_documents_until_verdict ::
  "external \<Rightarrow> AddDocumentsArgs
     \<Rightarrow> (TextChunk list \<times> EmbeddingGenerator \<times> VectorValidationResult) io" where
  "add_documents_until_verdict X args =
     io_bind (configure (setChunkSize X) (arg_chunkSize args)) (\<lambda>u1.
     io_bind (configure (setChunkOverlap X) (arg_chunkOverlap args)) (\<lambda>u2.
     io_bind (outside (ReadFileSync (filePath args)) (\<lambda>h. readFileSync X h (filePath args)))
       (\<lambda>content.
     io_bind (processFile X content (filePath args)) (\<lambda>chunks.
     io_bind (createAndInitializeEmbeddingService X
                (config_from_env X (add_embeddingService args))) (\<lambda>embeddingService.
     io_bind (validateEmbeddingCompatibility (DefaultQdrantService X) (add_collection args)
                embeddingService) (\<lambda>compatibilityResult.
     io_return (chunks, embeddingService, compatibilityResult)))))))"

text \<open>The steps of \<open>handleAddDocuments\<close> after the compatibility check.\<close>

definition add_documents_after_verdict ::
  "external \<Rightarrow> AddDocumentsArgs
     \<Rightarrow> TextChunk list \<times> EmbeddingGenerator \<times> VectorValidationResult \<Rightarrow> ToolResult io" where
  "add_documents_after_verdict X args scope =
     (let chunks = fst scope; embeddingService = fst (snd scope);
          compatibilityResult = snd (snd scope) in
      if \<not> isValid compatibilityResult then
        io_return \<lparr> content_text = compatibility_error_text compatibilityResult,
                    isError = True \<rparr>
      else
      io_bind (generateEmbeddings X embeddingService (map chunk_text chunks)) (\<lambda>generated.
      io_bind (io_lift (vectorSize (snd generated))) (\<lambda>serviceSize.
      let vectorValidation = validateVectorData (runtime X) (fst generated) serviceSize in
      if \<not> dv_isValid vectorValidation then
        io_return
          \<lparr> content_text =
              ''Vector validation failed:'' @ nl @ join nl (errors vectorValidation)
                @ (if length (warnings vectorValidation) > 0
                   then nl @ nl @ ''Warnings:'' @ nl @ join nl (warnings vectorValidation)
                   else []),
            isError = True \<rparr>
      else
      io_bind (if action compatibilityResult = create_collection
               then io_bind (io_lift (vectorSize (snd generated)))
                      (\<lambda>n. createCollection (DefaultQdrantService X) (add_collection args) n)
               else io_return ()) (\<lambda>u3.
      io_bind (make_points X (fst generated) (enumerate 0 chunks)) (\<lambda>points.
      io_bind (addDocuments (DefaultQdrantService X) (add_collection args) points) (\<lambda>u4.
      io_return
        \<lparr> content_text =
            ''Successfully processed and added '' @ string_of_nat (length chunks)
              @ '' chunks to collection '' @ add_collection args
              @ (if length (warnings vectorValidation) > 0
                 then nl @ nl @ ''Warnings:'' @ nl @ join nl (warnings vectorValidation)
                 else []),
          isError = False \<rparr>))))))"

text \<open>The two error texts of \<open>handleAddDocuments\<close> and the warning suffix of \<open>handleSearch\<close>.\<close>

definition vector_validation_failed_text :: "VectorDataValidationResult \<Rightarrow> string" where
  "vector_validation_failed_text r =
     ''Vector validation failed:'' @ nl @ join nl (errors r)
       @ (if length (warnings r) > 0
          then nl @ nl @ ''Warnings:'' @ nl @ join nl (warnings r)
          else [])"

definition query_warnings_suffix :: "VectorDataValidationResult \<Rightarrow> string" where
  "query_warnings_suffix r =
     (if length (warnings r) > 0
      then nl @ ''Query vector warnings:'' @ nl @ join nl (warnings r)
      else [])"

section \<open>Concrete inputs\<close>

text \<open>A runtime whose coercions are never consulted by the examples below.\<close>

definition rt0 :: js_runtime where
  "rt0 = \<lparr> ToNumber = (\<lambda>v. NaN), ToString = (\<lambda>v. []), JSON_stringify = (\<lambda>v. []),
           toFixed2 = (\<lambda>n. []) \<rparr>"

text \<open>Two vectors of length 3; one element, in the second, has absolute value 150.\<close>

definition batch_150 :: "json list" where
  "batch_150 =
     [JArr [JNum (Fin 1), JNum (Fin 2), JNum (Fin 3)],
      JArr [JNum (Fin 0.1), JNum (Fin (- 150)), JNum (Fin 7)]]"

text \<open>Three vectors of lengths 2, 3 and 4 (the first and last as in the repository's test script).\<close>

definition batch_mixed :: "json list" where
  "batch_mixed =
     [JArr [JNum (Fin 0.1), JNum (Fin 0.2)],
      JArr [JNum (Fin 1), JNum (Fin 2), JNum (Fin 3)],
      JArr [JNum (Fin 0.4), JNum (Fin 0.5), JNum (Fin 0.6), JNum (Fin 0.7)]]"

text \<open>
  A quiet outside world: the store holds no collection and knows none by name, every
  write succeeds, the embedding server answers every request with one vector of two
  numbers, the embedding library gives three numbers per text, every file reads
  \<open>alpha\<close>, and the splitter returns its input as the only chunk.
\<close>

definition X_base :: external where
  "X_base =
     \<lparr> client_getCollections = (\<lambda>h. Inr (Some [])),
       client_getCollection = (\<lambda>h n. Inl (Error ''Error'' ''Not Found'')),
       client_createCollection = (\<lambda>h n d. Inr ()),
       client_upsert = (\<lambda>h c ps. Inr ()),
       client_deleteCollection = (\<lambda>h n. Inr ()),
       client_search = (\<lambda>h c v l. Inl (Error ''Error'' ''Not Found'')),
       axios_post =
         (\<lambda>h u m ts. Inr (JObj [(''embeddings'', JArr [JArr [JNum (Fin 0.1), JNum (Fin 0.2)]])])),
       fastembed_embed = (\<lambda>h m ts. Inr (map (\<lambda>t. [Fin 1, Fin 2, Fin 3]) ts)),
       readFileSync = (\<lambda>h p. Inr ''alpha''),
       splitter_rejects = (\<lambda>s v. None),
       createDocuments = (\<lambda>h s v t. Inr [\<lparr> pageContent = t, doc_metadata = JUndefined \<rparr>]),
       uuidv4 = (\<lambda>h. ''id-'' @ string_of_nat (length h)),
       process_env = (\<lambda>k. None),
       runtime = rt0 \<rparr>"

text \<open>The same, with one collection \<open>docs\<close> of dimension 4 in the store.\<close>

definition X_docs4 :: external where
  "X_docs4 =
     X_base\<lparr> client_getCollections := (\<lambda>h. Inr (Some [''docs''])),
             client_getCollection := (\<lambda>h n. Inr (VectorParams 4 (Some ''Cosine''))) \<rparr>"

text \<open>The same, with a store that refuses every connection.\<close>

definition X_down :: external where
  "X_down =
     X_base\<lparr> client_getCollections := (\<lambda>h. Inl (Error ''Error'' ''ECONNREFUSED'')),
             client_getCollection := (\<lambda>h n. Inl (Error ''Error'' ''ECONNREFUSED'')),
             client_createCollection := (\<lambda>h n d. Inl (Error ''Error'' ''ECONNREFUSED'')),
             client_upsert := (\<lambda>h c ps. Inl (Error ''Error'' ''ECONNREFUSED'')),
             client_deleteCollection := (\<lambda>h n. Inl (Error ''Error'' ''ECONNREFUSED'')),
             client_search := (\<lambda>h c v l. Inl (Error ''Error'' ''ECONNREFUSED'')) \<rparr>"

text \<open>
  Another implementation of the service interface: its existence check throws instead
  of answering.
\<close>

definition raising_service :: QdrantService where
  "raising_service =
     (DefaultQdrantService X_base)
       \<lparr> collectionExists := (\<lambda>name. io_throw (new_Error ''connection refused'')) \<rparr>"

text \<open>And one that finds the collection \<open>docs\<close> but whose metadata fetch throws.\<close>

definition raising_info_service :: QdrantService where
  "raising_info_service =
     (DefaultQdrantService X_docs4)
       \<lparr> getCollectionInfo := (\<lambda>name. io_throw (new_Error ''timed out'')) \<rparr>"

text \<open>
  A store that remembers: the collections it lists, and their dimensions, are those
  created and not deleted in the history so far.
\<close>

definition store_after :: "call list \<Rightarrow> (string \<times> nat) list" where
  "store_after h =
     foldl (\<lambda>s c. case c of
                     CreateCollection name n \<Rightarrow> s @ [(name, n)]
                   | DeleteCollection name \<Rightarrow> filter (\<lambda>p. fst p \<noteq> name) s
                   | _ \<Rightarrow> s) [] h"

definition X_live :: external where
  "X_live =
     X_base\<lparr> client_getCollections := (\<lambda>h. Inr (Some (map fst (store_after h)))),
             client_getCollection :=
               (\<lambda>h n. case map_of (store_after h) n of
                         None \<Rightarrow> Inl (Error ''Error'' ''Not Found'')
                       | Some d \<Rightarrow> Inr (VectorParams d (Some ''Cosine''))) \<rparr>"

text \<open>
  An embedding server whose first answer is one empty vector and whose later answers
  are one vector of two numbers.
\<close>

definition X_flaky :: external where
  "X_flaky =
     X_base\<lparr> axios_post :=
               (\<lambda>h u m ts.
                  if h = [] then Inr (JObj [(''embeddings'', JArr [JArr []])])
                  else Inr (JObj [(''embeddings'',
                                   JArr [JArr [JNum (Fin 0.1), JNum (Fin 0.2)]])])) \<rparr>"

text \<open>The quiet world with a store whose search finds nothing and does not fail.\<close>

definition X_no_hits :: external where
  "X_no_hits = X_base\<lparr> client_search := (\<lambda>h c v l. Inr []) \<rparr>"

text \<open>The calls to the text splitter.\<close>

fun is_split_call :: "call \<Rightarrow> bool" where
  "is_split_call (CreateDocuments s v t) = True"
| "is_split_call c = False"

text \<open>Tool arguments.\<close>

definition search_docs :: SearchArgs where
  "search_docs =
     \<lparr> query = ''hello'', search_collection = ''docs'', search_embeddingService = ollama,
       limit = None \<rparr>"

definition add_with_fastembed :: AddDocumentsArgs where
  "add_with_fastembed =
     \<lparr> filePath = ''notes.txt'', add_collection = ''docs'', add_embeddingService = fastembed,
       arg_chunkSize = None, arg_chunkOverlap = None \<rparr>"

definition add_with_sizes :: AddDocumentsArgs where
  "add_with_sizes =
     \<lparr> filePath = ''a.txt'', add_collection = ''docs'', add_embeddingService = ollama,
       arg_chunkSize = Some (Fin 50), arg_chunkOverlap = Some (Fin 10) \<rparr>"

definition add_without_sizes :: AddDocumentsArgs where
  "add_without_sizes =
     \<lparr> filePath = ''b.txt'', add_collection = ''docs'', add_embeddingService = ollama,
       arg_chunkSize = None, arg_chunkOverlap = None \<rparr>"

text \<open>A server state whose dimension cache holds 768 for the default Ollama model.\<close>

definition cached_768 :: world where
  "cached_768 =
     new_server\<lparr> dimensionCache :=
                    (\<lambda>k. None)(modelKey ''http://host.docker.internal:11434''
                                   ''nomic-embed-text'' \<mapsto> 768) \<rparr>"

section \<open>Properties of the vector data validation\<close>

lemma check_vector_acc:
  "check_vector rt e i v ew =
     (fst ew @ vector_errors rt e i v, snd ew @ vector_warnings rt e i v)"
  by (cases v) (simp_all add: check_vector_def vector_errors_def vector_warnings_def Let_def)

lemma forEach_vector_acc:
  "forEach_vector rt e k vs ew =
     (fst ew @ concat (map (\<lambda>(i, v). vector_errors rt e i v) (enumerate k vs)),
      snd ew @ concat (map (\<lambda>(i, v). vector_warnings rt e i v) (enumerate k vs)))"
proof (induction vs arbitrary: k ew)
  case Nil
  then show ?case by simp
next
  case (Cons v vs)
  show ?case
    by (simp add: Cons.IH check_vector_acc [of rt e k v ew])
qed

lemma errors_validateVectorData:
  "errors (validateVectorData rt vs e) =
     (if vs = [] then [''No vectors provided''] else [])
       @ concat (map (\<lambda>(i, v). vector_errors rt e i v) (enumerate 0 vs))"
  by (simp add: validateVectorData_def Let_def forEach_vector_acc)

lemma warnings_validateVectorData:
  "warnings (validateVectorData rt vs e) =
     concat (map (\<lambda>(i, v). vector_warnings rt e i v) (enumerate 0 vs))"
  by (simp add: validateVectorData_def Let_def forEach_vector_acc)

lemma isValid_validateVectorData:
  "dv_isValid (validateVectorData rt vs e) = (errors (validateVectorData rt vs e) = [])"
  by (simp add: validateVectorData_def Let_def)

lemma vector_errors_JArr:
  "vector_errors rt e i (JArr es) =
     (if length es \<noteq> e then [size_message i (length es) e] else [])
       @ (if filter (non_number rt) es \<noteq> []
          then [non_numeric_message i (length (filter (non_number rt) es))] else [])"
  by (simp add: vector_errors_def check_vector_def Let_def)

lemma vector_warnings_JArr:
  "vector_warnings rt e i (JArr es) =
     (if filter (math_abs_gt_100 rt) es \<noteq> []
      then [extreme_message i (length (filter (math_abs_gt_100 rt) es))] else [])"
  by (simp add: vector_warnings_def check_vector_def Let_def)

lemma vector_errors_numeric:
  "numeric_vector rt e v \<Longrightarrow> vector_errors rt e i v = []"
  by (cases v) (simp_all add: numeric_vector_def number_array_def vector_errors_JArr)

lemma vector_errors_number_array:
  "number_array rt v \<Longrightarrow>
     vector_errors rt e i v =
       (if array_length v \<noteq> e then [size_message i (array_length v) e] else [])"
  by (cases v) (simp_all add: number_array_def vector_errors_JArr)

lemma vector_warnings_calm:
  "calm_vector rt e v \<Longrightarrow> vector_warnings rt e i v = []"
  by (cases v) (simp_all add: calm_vector_def vector_warnings_JArr)

lemma concat_errors_numeric:
  "list_all (numeric_vector rt e) vs \<Longrightarrow>
     concat (map (\<lambda>(i, v). vector_errors rt e i v) (enumerate k vs)) = []"
  by (induction vs arbitrary: k) (simp_all add: vector_errors_numeric)

lemma concat_warnings_calm:
  "list_all (calm_vector rt e) vs \<Longrightarrow>
     concat (map (\<lambda>(i, v). vector_warnings rt e i v) (enumerate k vs)) = []"
  by (induction vs arbitrary: k) (simp_all add: vector_warnings_calm)

lemma concat_errors_number_arrays:
  "list_all (number_array rt) vs \<Longrightarrow>
     concat (map (\<lambda>(i, v). vector_errors rt e i v) (enumerate k vs)) =
       map (\<lambda>(i, v). size_message i (array_length v) e)
         (filter (\<lambda>(i, v). array_length v \<noteq> e) (enumerate k vs))"
  by (induction vs arbitrary: k) (simp_all add: vector_errors_number_array)

lemma enumerate_split:
  "enumerate k (xs @ ys) = enumerate k xs @ enumerate (k + length xs) ys"
  by (simp add: enumerate_append_eq)

lemma calm_numeric:
  "list_all (calm_vector rt e) vs \<Longrightarrow> list_all (numeric_vector rt e) vs"
  by (induction vs) (simp_all add: calm_vector_def)

lemma size_error_member:
  assumes "i < length vs" "vs ! i = JArr es" "length es \<noteq> e"
  shows "size_message i (length es) e \<in> set (errors (validateVectorData rt vs e))"
proof -
  have "(i, vs ! i) \<in> set (enumerate 0 vs)"
    using assms(1) by (simp add: in_set_enumerate_eq)
  moreover have "size_message i (length es) e \<in> set (vector_errors rt e i (vs ! i))"
    using assms(2,3) by (simp add: vector_errors_JArr)
  ultimately show ?thesis
    unfolding errors_validateVectorData by force
qed

lemma one_extreme_element:
  assumes vs: "vs = pre @ [JArr (xs @ [JNum x] @ ys)] @ post"
    and pre: "list_all (calm_vector rt e) pre"
    and post: "list_all (calm_vector rt e) post"
    and nums: "filter (non_number rt) (xs @ ys) = []"
    and calm: "filter (math_abs_gt_100 rt) (xs @ ys) = []"
    and len: "length (xs @ [JNum x] @ ys) = e"
    and x: "abs_exceeds_100 x"
  shows "errors (validateVectorData rt vs e) = []"
    and "warnings (validateVectorData rt vs e) = [extreme_message (length pre) 1]"
proof -
  have xn: "\<not> non_number rt (JNum x)"
    using x by (cases x) (simp_all add: non_number_def)
  have midnum: "filter (non_number rt) (xs @ [JNum x] @ ys) = []"
    using nums xn by simp
  have midext: "filter (math_abs_gt_100 rt) (xs @ [JNum x] @ ys) = [JNum x]"
    using calm x by simp
  have me: "vector_errors rt e k (JArr (xs @ [JNum x] @ ys)) = []" for k
    using midnum len by (simp only: vector_errors_JArr) simp
  have mw: "vector_warnings rt e k (JArr (xs @ [JNum x] @ ys)) = [extreme_message k 1]" for k
    by (simp only: vector_warnings_JArr midext) simp
  show "errors (validateVectorData rt vs e) = []"
    unfolding errors_validateVectorData vs
    using pre post
    by (simp add: enumerate_split concat_errors_numeric calm_numeric me
          del: append_assoc append.simps)
  show "warnings (validateVectorData rt vs e) = [extreme_message (length pre) 1]"
    unfolding warnings_validateVectorData vs
    using pre post
    by (simp add: enumerate_split concat_warnings_calm mw del: append_assoc append.simps)
qed

text \<open>
  C5. For every batch, \<open>isValid\<close> is true exactly when the error list is empty, whatever
  the warnings are. A non-empty batch of numeric vectors of the expected length is valid
  with no error, and its warnings are those of its vectors, in index order. A vector
  contributes one warning when some element has an absolute value above 100, naming how
  many do, and none otherwise. So when exactly one element \<open>x\<close> of such a batch is beyond
  the threshold (150, say), the verdict is valid, has no error and has exactly one
  warning, which names the vector's index and the count 1.
\<close>

theorem vector_data_valid_iff_no_errors:
  "(dv_isValid (validateVectorData rt vs e) = (errors (validateVectorData rt vs e) = []))
   \<and> (vs \<noteq> [] \<and> list_all (numeric_vector rt e) vs \<longrightarrow>
        dv_isValid (validateVectorData rt vs e)
        \<and> errors (validateVectorData rt vs e) = []
        \<and> warnings (validateVectorData rt vs e) =
            concat (map (\<lambda>(i, v). vector_warnings rt e i v) (enumerate 0 vs)))
   \<and> (vector_warnings rt e i (JArr es) =
        (if filter (math_abs_gt_100 rt) es \<noteq> []
         then [extreme_message i (length (filter (math_abs_gt_100 rt) es))] else []))
   \<and> (vs = pre @ [JArr (xs @ [JNum x] @ ys)] @ post
        \<and> list_all (calm_vector rt e) pre \<and> list_all (calm_vector rt e) post
        \<and> filter (non_number rt) (xs @ ys) = []
        \<and> filter (math_abs_gt_100 rt) (xs @ ys) = []
        \<and> length (xs @ [JNum x] @ ys) = e
        \<and> abs_exceeds_100 x \<longrightarrow>
        dv_isValid (validateVectorData rt vs e)
        \<and> errors (validateVectorData rt vs e) = []
        \<and> warnings (validateVectorData rt vs e) = [extreme_message (length pre) 1])"
proof (intro conjI impI)
  show "dv_isValid (validateVectorData rt vs e) = (errors (validateVectorData rt vs e) = [])"
    by (rule isValid_validateVectorData)
next
  assume h: "vs \<noteq> [] \<and> list_all (numeric_vector rt e) vs"
  then have e: "errors (validateVectorData rt vs e) = []"
    by (simp add: errors_validateVectorData concat_errors_numeric)
  then show "dv_isValid (validateVectorData rt vs e)"
    by (simp add: isValid_validateVectorData)
  show "errors (validateVectorData rt vs e) = []" by (rule e)
  show "warnings (validateVectorData rt vs e) =
            concat (map (\<lambda>(i, v). vector_warnings rt e i v) (enumerate 0 vs))"
    by (rule warnings_validateVectorData)
next
  show "vector_warnings rt e i (JArr es) =
        (if filter (math_abs_gt_100 rt) es \<noteq> []
         then [extreme_message i (length (filter (math_abs_gt_100 rt) es))] else [])"
    by (rule vector_warnings_JArr)
next
  assume h: "vs = pre @ [JArr (xs @ [JNum x] @ ys)] @ post
        \<and> list_all (calm_vector rt e) pre \<and> list_all (calm_vector rt e) post
        \<and> filter (non_number rt) (xs @ ys) = []
        \<and> filter (math_abs_gt_100 rt) (xs @ ys) = []
        \<and> length (xs @ [JNum x] @ ys) = e
        \<and> abs_exceeds_100 x"
  have e: "errors (validateVectorData rt vs e) = []"
    using h by (intro one_extreme_element(1) [of vs pre xs x ys post rt e]) simp_all
  then show "dv_isValid (validateVectorData rt vs e)"
    by (simp add: isValid_validateVectorData)
  show "errors (validateVectorData rt vs e) = []" by (rule e)
  show "warnings (validateVectorData rt vs e) = [extreme_message (length pre) 1]"
    using h by (intro one_extreme_element(2) [of vs pre xs x ys post rt e]) simp_all
qed

theorem vector_data_valid_iff_no_errors_witness:
  "dv_isValid (validateVectorData rt0 batch_150 3)
   \<and> errors (validateVectorData rt0 batch_150 3) = []
   \<and> warnings (validateVectorData rt0 batch_150 3) =
       [''Vector at index 1 contains 1 values with absolute value > 100'']"
proof -
  have h: "batch_150 = [JArr [JNum (Fin 1), JNum (Fin 2), JNum (Fin 3)]]
             @ [JArr ([JNum (Fin 0.1)] @ [JNum (Fin (- 150))] @ [JNum (Fin 7)])] @ []
           \<and> list_all (calm_vector rt0 3) [JArr [JNum (Fin 1), JNum (Fin 2), JNum (Fin 3)]]
           \<and> list_all (calm_vector rt0 3) []
           \<and> filter (non_number rt0) ([JNum (Fin 0.1)] @ [JNum (Fin 7)]) = []
           \<and> filter (math_abs_gt_100 rt0) ([JNum (Fin 0.1)] @ [JNum (Fin 7)]) = []
           \<and> length ([JNum (Fin 0.1)] @ [JNum (Fin (- 150))] @ [JNum (Fin 7)]) = 3
           \<and> abs_exceeds_100 (Fin (- 150))"
    by (simp add: batch_150_def calm_vector_def numeric_vector_def number_array_def
          non_number_def)
  have n: "batch_150 \<noteq> [] \<and> list_all (numeric_vector rt0 3) batch_150"
    by (simp add: batch_150_def numeric_vector_def number_array_def non_number_def)
  from vector_data_valid_iff_no_errors
    [of rt0 batch_150 3 0 "[]" "[JArr [JNum (Fin 1), JNum (Fin 2), JNum (Fin 3)]]"
       "[JNum (Fin 0.1)]" "Fin (- 150)" "[JNum (Fin 7)]" "[]"] h n
  have "dv_isValid (validateVectorData rt0 batch_150 3)
        \<and> errors (validateVectorData rt0 batch_150 3) = []
        \<and> warnings (validateVectorData rt0 batch_150 3) =
            concat (map (\<lambda>(i, v). vector_warnings rt0 3 i v) (enumerate 0 batch_150))
        \<and> warnings (validateVectorData rt0 batch_150 3) = [extreme_message (length
             [JArr [JNum (Fin 1), JNum (Fin 2), JNum (Fin 3)]]) 1]"
    by blast
  then have "dv_isValid (validateVectorData rt0 batch_150 3)
        \<and> errors (validateVectorData rt0 batch_150 3) = []
        \<and> warnings (validateVectorData rt0 batch_150 3) = [extreme_message (length
             [JArr [JNum (Fin 1), JNum (Fin 2), JNum (Fin 3)]]) 1]"
    by blast
  then show ?thesis
    by (simp add: extreme_message_def string_of_nat.simps digit_char_def)
qed

text \<open>
  C6. The error list of a verdict is the "no vectors" error of an empty batch followed
  by the errors of every vector, in index order: the loop never stops early. An array
  contributes one size error, with its index, its length and the expected length, when
  its length is not the expected one, and none otherwise (followed by its non-numeric
  error, if any). So every index whose array has the wrong length has its size error in
  the list, and for a batch of number arrays the error list is exactly one size error
  per offending index.
\<close>

theorem size_errors_all_reported:
  "errors (validateVectorData rt vs e) =
     (if vs = [] then [''No vectors provided''] else [])
       @ concat (map (\<lambda>(i, v). vector_errors rt e i v) (enumerate 0 vs))
   \<and> vector_errors rt e i (JArr es) =
       (if length es \<noteq> e then [size_message i (length es) e] else [])
         @ (if filter (non_number rt) es \<noteq> []
            then [non_numeric_message i (length (filter (non_number rt) es))] else [])
   \<and> (j < length vs \<and> vs ! j = JArr elems \<and> length elems \<noteq> e \<longrightarrow>
        size_message j (length elems) e \<in> set (errors (validateVectorData rt vs e)))
   \<and> (vs \<noteq> [] \<and> list_all (number_array rt) vs \<longrightarrow>
        errors (validateVectorData rt vs e) =
          map (\<lambda>(i, v). size_message i (array_length v) e)
            (filter (\<lambda>(i, v). array_length v \<noteq> e) (enumerate 0 vs)))"
proof (intro conjI impI)
  show "errors (validateVectorData rt vs e) =
     (if vs = [] then [''No vectors provided''] else [])
       @ concat (map (\<lambda>(i, v). vector_errors rt e i v) (enumerate 0 vs))"
    by (rule errors_validateVectorData)
  show "vector_errors rt e i (JArr es) =
       (if length es \<noteq> e then [size_message i (length es) e] else [])
         @ (if filter (non_number rt) es \<noteq> []
            then [non_numeric_message i (length (filter (non_number rt) es))] else [])"
    by (rule vector_errors_JArr)
next
  assume "j < length vs \<and> vs ! j = JArr elems \<and> length elems \<noteq> e"
  then show "size_message j (length elems) e \<in> set (errors (validateVectorData rt vs e))"
    by (simp add: size_error_member)
next
  assume "vs \<noteq> [] \<and> list_all (number_array rt) vs"
  then show "errors (validateVectorData rt vs e) =
          map (\<lambda>(i, v). size_message i (array_length v) e)
            (filter (\<lambda>(i, v). array_length v \<noteq> e) (enumerate 0 vs))"
    by (simp add: errors_validateVectorData concat_errors_number_arrays)
qed

theorem size_errors_all_reported_witness:
  "errors (validateVectorData rt0 batch_mixed 3) =
     [''Vector at index 0 has size 2, expected 3'',
      ''Vector at index 2 has size 4, expected 3'']
   \<and> ''Vector at index 2 has size 4, expected 3''
        \<in> set (errors (validateVectorData rt0 batch_mixed 3))"
proof -
  have h: "batch_mixed \<noteq> [] \<and> list_all (number_array rt0) batch_mixed"
    by (simp add: batch_mixed_def number_array_def non_number_def)
  have g: "2 < length batch_mixed
           \<and> batch_mixed ! 2 = JArr [JNum (Fin 0.4), JNum (Fin 0.5), JNum (Fin 0.6), JNum (Fin 0.7)]
           \<and> length [JNum (Fin 0.4), JNum (Fin 0.5), JNum (Fin 0.6), JNum (Fin 0.7)] \<noteq> (3::nat)"
    by (simp add: batch_mixed_def)
  have en: "enumerate 0 batch_mixed =
              [(0, batch_mixed ! 0), (1, batch_mixed ! 1), (2, batch_mixed ! 2)]"
    by (simp add: batch_mixed_def)
  from size_errors_all_reported
    [of rt0 batch_mixed 3 0 "[]" 2
       "[JNum (Fin 0.4), JNum (Fin 0.5), JNum (Fin 0.6), JNum (Fin 0.7)]"] h g
  have "errors (validateVectorData rt0 batch_mixed 3) =
          map (\<lambda>(i, v). size_message i (array_length v) 3)
            (filter (\<lambda>(i, v). array_length v \<noteq> 3) (enumerate 0 batch_mixed))
        \<and> size_message 2 (length [JNum (Fin 0.4), JNum (Fin 0.5), JNum (Fin 0.6), JNum (Fin 0.7)]) 3
            \<in> set (errors (validateVectorData rt0 batch_mixed 3))"
    by blast
  then show ?thesis
    unfolding en
    by (simp add: batch_mixed_def size_message_def string_of_nat.simps digit_char_def)
qed

section \<open>Properties of the effects, the store service and the compatibility check\<close>

lemma io_bind_return [simp]: "io_bind (io_return x) f w = f x w"
  by (simp add: io_bind_def io_return_def)

lemma io_bind_throw [simp]: "io_bind (io_throw e) f w = (Inl e, w)"
  by (simp add: io_bind_def io_throw_def)

lemma io_bind_lift_Inr [simp]: "io_bind (io_lift (Inr x)) f w = f x w"
  by (simp add: io_bind_def io_lift_def)

lemma io_bind_lift_Inl [simp]: "io_bind (io_lift (Inl e)) f w = (Inl e, w)"
  by (simp add: io_bind_def io_lift_def)

lemma io_bind_Inr: "m w = (Inr x, w') \<Longrightarrow> io_bind m f w = f x w'"
  by (simp add: io_bind_def)

lemma io_bind_Inl: "m w = (Inl e, w') \<Longrightarrow> io_bind m f w = (Inl e, w')"
  by (simp add: io_bind_def)

lemma io_catch_Inr: "m w = (Inr x, w') \<Longrightarrow> io_catch m h w = (Inr x, w')"
  by (simp add: io_catch_def)

lemma io_catch_Inl: "m w = (Inl e, w') \<Longrightarrow> io_catch m h w = h e w'"
  by (simp add: io_catch_def)

lemma io_return_apply [simp]: "io_return x w = (Inr x, w)"
  by (simp add: io_return_def)

lemma io_throw_apply [simp]: "io_throw e w = (Inl e, w)"
  by (simp add: io_throw_def)

lemma io_lift_apply [simp]: "io_lift r w = (r, w)"
  by (simp add: io_lift_def)

lemma outside_apply: "outside c a w = (a (calls w), w\<lparr>calls := calls w @ [c]\<rparr>)"
  by (simp add: outside_def)

lemma listCollections_fail:
  "client_getCollections X (calls w) = Inl err \<Longrightarrow>
   Default_listCollections X w =
     (Inl (new_Error (''Failed to list collections: '' @ error_message err)),
      w\<lparr>calls := calls w @ [GetCollections]\<rparr>)"
  by (simp add: Default_listCollections_def io_catch_def io_bind_def outside_def handleQdrantError_def)

lemma listCollections_ok:
  "client_getCollections X (calls w) = Inr r \<Longrightarrow>
   Default_listCollections X w =
     (Inr (case r of None \<Rightarrow> [] | Some names \<Rightarrow> names), w\<lparr>calls := calls w @ [GetCollections]\<rparr>)"
  by (simp add: Default_listCollections_def io_catch_def io_bind_def outside_def handleQdrantError_def)

lemma collectionExists_fail:
  "client_getCollections X (calls w) = Inl err \<Longrightarrow>
   Default_collectionExists X name w = (Inr False, w\<lparr>calls := calls w @ [GetCollections]\<rparr>)"
  by (simp add: Default_collectionExists_def io_catch_def io_bind_def listCollections_fail)

lemma collectionExists_ok:
  "client_getCollections X (calls w) = Inr r \<Longrightarrow>
   Default_collectionExists X name w =
     (Inr (name \<in> set (case r of None \<Rightarrow> [] | Some names \<Rightarrow> names)),
      w\<lparr>calls := calls w @ [GetCollections]\<rparr>)"
  by (simp add: Default_collectionExists_def io_catch_def io_bind_def listCollections_ok)

lemma getCollectionInfo_fail:
  "client_getCollection X (calls w) name = Inl err \<Longrightarrow>
   Default_getCollectionInfo X name w = (Inr None, w\<lparr>calls := calls w @ [GetCollection name]\<rparr>)"
  by (simp add: Default_getCollectionInfo_def io_catch_def io_bind_def outside_def)

lemma createCollection_fail:
  "client_createCollection X (calls w) name n = Inl err \<Longrightarrow>
   Default_createCollection X name n w =
     (Inl (new_Error (''Failed to create collection: '' @ error_message err)),
      w\<lparr>calls := calls w @ [CreateCollection name n]\<rparr>)"
  by (simp add: Default_createCollection_def io_catch_def outside_def handleQdrantError_def)

lemma addDocuments_fail:
  "client_upsert X (calls w) c docs = Inl err \<Longrightarrow>
   Default_addDocuments X c docs w =
     (Inl (new_Error (''Failed to add documents: '' @ error_message err)),
      w\<lparr>calls := calls w @ [Upsert c docs]\<rparr>)"
  by (simp add: Default_addDocuments_def io_catch_def outside_def handleQdrantError_def)

lemma deleteCollection_fail:
  "client_deleteCollection X (calls w) name = Inl err \<Longrightarrow>
   Default_deleteCollection X name w =
     (Inl (new_Error (''Failed to delete collection: '' @ error_message err)),
      w\<lparr>calls := calls w @ [DeleteCollection name]\<rparr>)"
  by (simp add: Default_deleteCollection_def io_catch_def outside_def handleQdrantError_def)

lemma search_fail:
  "client_search X (calls w) c v (case l of None \<Rightarrow> Fin 10 | Some n \<Rightarrow> n) = Inl err \<Longrightarrow>
   Default_search X c v l w =
     (Inl (new_Error (''Failed to search collection: '' @ error_message err)),
      w\<lparr>calls := calls w @ [SearchPoints c v (case l of None \<Rightarrow> Fin 10 | Some n \<Rightarrow> n)]\<rparr>)"
  by (simp add: Default_search_def Let_def io_catch_def io_bind_def outside_def handleQdrantError_def)

lemma search_ok:
  "client_search X (calls w) c v (case l of None \<Rightarrow> Fin 10 | Some n \<Rightarrow> n) = Inr hits \<Longrightarrow>
   Default_search X c v l w =
     (Inr (map (to_SearchResult (runtime X)) hits),
      w\<lparr>calls := calls w @ [SearchPoints c v (case l of None \<Rightarrow> Fin 10 | Some n \<Rightarrow> n)]\<rparr>)"
  by (simp add: Default_search_def Let_def io_catch_def io_bind_def outside_def handleQdrantError_def)


lemma validate_missing:
  assumes "collectionExists svc c w = (Inr False, w1)" "vectorSize p = Inr d"
  shows "validateEmbeddingCompatibility svc c p w =
     (Inr \<lparr> isValid = True,
            reason = ''Collection does not exist - will be created with correct dimensions'',
            expectedVectorSize = d, actualVectorSize = None, action = create_collection,
            suggestedActions = None \<rparr>, w1)"
  using assms by (simp add: validateEmbeddingCompatibility_def io_catch_def io_bind_def)

lemma validate_existing:
  assumes "collectionExists svc c w = (Inr True, w1)"
    "getCollectionInfo svc c w1 = (Inr (Some info), w2)" "vectorSize p = Inr d"
  shows "validateEmbeddingCompatibility svc c p w =
     (Inr (if ci_vectorSize info = d
           then \<lparr> isValid = True, reason = ''Vector dimensions are compatible'',
                  expectedVectorSize = d, actualVectorSize = Some (ci_vectorSize info),
                  action = compatible, suggestedActions = None \<rparr>
           else \<lparr> isValid = False,
                  reason = ''Vector size mismatch: collection expects ''
                     @ string_of_nat (ci_vectorSize info)
                     @ '', but embedding service produces '' @ string_of_nat d,
                  expectedVectorSize = d, actualVectorSize = Some (ci_vectorSize info),
                  action = size_mismatch,
                  suggestedActions = Some (mismatch_suggestions (ci_vectorSize info) d) \<rparr>), w2)"
  using assms by (simp add: validateEmbeddingCompatibility_def io_catch_def io_bind_def)

lemma validate_no_info:
  assumes "collectionExists svc c w = (Inr True, w1)"
    "getCollectionInfo svc c w1 = (Inr None, w2)" "vectorSize p = Inr d"
  shows "validateEmbeddingCompatibility svc c p w =
     (Inr \<lparr> isValid = False, reason = ''Could not retrieve collection information'',
                  expectedVectorSize = d, actualVectorSize = None,
                  action = action_error, suggestedActions = None \<rparr>, w2)"
  using assms by (simp add: validateEmbeddingCompatibility_def io_catch_def io_bind_def)

lemma validate_exists_raises:
  assumes "collectionExists svc c w = (Inl err, w1)" "vectorSize p = Inr d"
  shows "validateEmbeddingCompatibility svc c p w =
     (Inr \<lparr> isValid = False, reason = ''Validation failed: '' @ error_message err,
            expectedVectorSize = d, actualVectorSize = None, action = action_error,
            suggestedActions = None \<rparr>, w1)"
  using assms by (simp add: validateEmbeddingCompatibility_def io_catch_def io_bind_def)

lemma validate_info_raises:
  assumes "collectionExists svc c w = (Inr True, w1)"
    "getCollectionInfo svc c w1 = (Inl err, w2)" "vectorSize p = Inr d"
  shows "validateEmbeddingCompatibility svc c p w =
     (Inr \<lparr> isValid = False, reason = ''Validation failed: '' @ error_message err,
            expectedVectorSize = d, actualVectorSize = None, action = action_error,
            suggestedActions = None \<rparr>, w2)"
  using assms by (simp add: validateEmbeddingCompatibility_def io_catch_def io_bind_def)

lemma validate_uninitialised:
  assumes "vectorSize p = Inl e"
  shows "\<exists>w'. validateEmbeddingCompatibility svc c p w = (Inl e, w')"
proof (cases "collectionExists svc c w")
  case (Pair r w1)
  show ?thesis
  proof (cases r)
    case (Inl err)
    with Pair assms show ?thesis
      by (simp add: validateEmbeddingCompatibility_def io_catch_def io_bind_def)
  next
    case (Inr b)
    show ?thesis
    proof (cases b)
      case False
      with Pair Inr assms show ?thesis
        by (simp add: validateEmbeddingCompatibility_def io_catch_def io_bind_def)
    next
      case True
      obtain r2 w2 where g: "getCollectionInfo svc c w1 = (r2, w2)" by (cases "getCollectionInfo svc c w1")
      show ?thesis
        using Pair Inr True g assms
        by (cases r2) (auto simp add: validateEmbeddingCompatibility_def io_catch_def io_bind_def split: option.splits)
    qed
  qed
qed

lemma validate_total:
  assumes "vectorSize p = Inr d"
  shows "\<exists>v w'. validateEmbeddingCompatibility svc c p w = (Inr v, w')"
proof (cases "collectionExists svc c w")
  case (Pair r w1)
  show ?thesis
  proof (cases r)
    case (Inl err)
    with Pair assms validate_exists_raises [of svc c w err w1 p d] show ?thesis by simp
  next
    case (Inr b)
    show ?thesis
    proof (cases b)
      case False
      with Pair Inr assms validate_missing [of svc c w w1 p d] show ?thesis by simp
    next
      case True
      obtain r2 w2 where g: "getCollectionInfo svc c w1 = (r2, w2)" by (cases "getCollectionInfo svc c w1")
      show ?thesis
      proof (cases r2)
        case (Inl err)
        with Pair Inr True g assms validate_info_raises [of svc c w w1 err w2 p d] show ?thesis by simp
      next
        case (Inr oi)
        show ?thesis
        proof (cases oi)
          case None
          with Pair \<open>r = Inr b\<close> True g Inr assms validate_no_info [of svc c w w1 w2 p d] show ?thesis by simp
        next
          case (Some info)
          with Pair \<open>r = Inr b\<close> True g Inr assms validate_existing [of svc c w w1 info w2 p d] show ?thesis by simp
        qed
      qed
    qed
  qed
qed

text \<open>
  C7 (as stated, refuted). With a store that refuses every connection, the existence
  check returns \<open>false\<close> and the metadata fetch returns \<open>null\<close>: both turn the failure
  of the backing call into a normal return value.
\<close>

theorem store_failure_absorbed_counterexample:
  "client_getCollections X_down (calls new_server) = Inl (Error ''Error'' ''ECONNREFUSED'')
   \<and> fst (collectionExists (DefaultQdrantService X_down) ''docs'' new_server) = Inr False
   \<and> client_getCollection X_down (calls new_server) ''docs'' = Inl (Error ''Error'' ''ECONNREFUSED'')
   \<and> fst (getCollectionInfo (DefaultQdrantService X_down) ''docs'' new_server) = Inr None"
  by (simp add: X_down_def X_base_def DefaultQdrantService_def new_server_def
        collectionExists_fail getCollectionInfo_fail)

text \<open>
  C7 (amended). When the backing call fails, list collections, create collection,
  upsert, delete collection and search each throw an error whose message is
  \<open>Failed to <operation>: <underlying message>\<close>, after exactly one backing call (the
  history grows by that one call: no retry). The existence check and the metadata fetch
  catch the failure instead, after one backing call as well, and return \<open>false\<close> and
  \<open>null\<close>.
\<close>

theorem store_failures_wrapped_or_absorbed:
  "(client_getCollections X (calls w) = Inl err \<longrightarrow>
      listCollections (DefaultQdrantService X) w =
        (Inl (new_Error (''Failed to list collections: '' @ error_message err)),
         w\<lparr>calls := calls w @ [GetCollections]\<rparr>))
   \<and> (client_createCollection X (calls w) name n = Inl err \<longrightarrow>
      createCollection (DefaultQdrantService X) name n w =
        (Inl (new_Error (''Failed to create collection: '' @ error_message err)),
         w\<lparr>calls := calls w @ [CreateCollection name n]\<rparr>))
   \<and> (client_upsert X (calls w) name docs = Inl err \<longrightarrow>
      addDocuments (DefaultQdrantService X) name docs w =
        (Inl (new_Error (''Failed to add documents: '' @ error_message err)),
         w\<lparr>calls := calls w @ [Upsert name docs]\<rparr>))
   \<and> (client_deleteCollection X (calls w) name = Inl err \<longrightarrow>
      deleteCollection (DefaultQdrantService X) name w =
        (Inl (new_Error (''Failed to delete collection: '' @ error_message err)),
         w\<lparr>calls := calls w @ [DeleteCollection name]\<rparr>))
   \<and> (client_search X (calls w) name v (case l of None \<Rightarrow> Fin 10 | Some k \<Rightarrow> k) = Inl err \<longrightarrow>
      search (DefaultQdrantService X) name v l w =
        (Inl (new_Error (''Failed to search collection: '' @ error_message err)),
         w\<lparr>calls := calls w @ [SearchPoints name v (case l of None \<Rightarrow> Fin 10 | Some k \<Rightarrow> k)]\<rparr>))
   \<and> (client_getCollections X (calls w) = Inl err \<longrightarrow>
      collectionExists (DefaultQdrantService X) name w =
        (Inr False, w\<lparr>calls := calls w @ [GetCollections]\<rparr>))
   \<and> (client_getCollection X (calls w) name = Inl err \<longrightarrow>
      getCollectionInfo (DefaultQdrantService X) name w =
        (Inr None, w\<lparr>calls := calls w @ [GetCollection name]\<rparr>))"
  by (simp add: DefaultQdrantService_def listCollections_fail createCollection_fail
        addDocuments_fail deleteCollection_fail search_fail collectionExists_fail
        getCollectionInfo_fail)

theorem store_failures_wrapped_or_absorbed_witness:
  "listCollections (DefaultQdrantService X_down) new_server =
     (Inl (Error ''Error'' ''Failed to list collections: ECONNREFUSED''),
      new_server\<lparr>calls := [GetCollections]\<rparr>)
   \<and> createCollection (DefaultQdrantService X_down) ''docs'' 4 new_server =
     (Inl (Error ''Error'' ''Failed to create collection: ECONNREFUSED''),
      new_server\<lparr>calls := [CreateCollection ''docs'' 4]\<rparr>)
   \<and> addDocuments (DefaultQdrantService X_down) ''docs'' [] new_server =
     (Inl (Error ''Error'' ''Failed to add documents: ECONNREFUSED''),
      new_server\<lparr>calls := [Upsert ''docs'' []]\<rparr>)
   \<and> deleteCollection (DefaultQdrantService X_down) ''docs'' new_server =
     (Inl (Error ''Error'' ''Failed to delete collection: ECONNREFUSED''),
      new_server\<lparr>calls := [DeleteCollection ''docs'']\<rparr>)
   \<and> search (DefaultQdrantService X_down) ''docs'' (JArr []) None new_server =
     (Inl (Error ''Error'' ''Failed to search collection: ECONNREFUSED''),
      new_server\<lparr>calls := [SearchPoints ''docs'' (JArr []) (Fin 10)]\<rparr>)
   \<and> collectionExists (DefaultQdrantService X_down) ''docs'' new_server =
     (Inr False, new_server\<lparr>calls := [GetCollections]\<rparr>)
   \<and> getCollectionInfo (DefaultQdrantService X_down) ''docs'' new_server =
     (Inr None, new_server\<lparr>calls := [GetCollection ''docs'']\<rparr>)"
  using store_failures_wrapped_or_absorbed
    [of X_down new_server "Error ''Error'' ''ECONNREFUSED''" "''docs''" 4 "[]" "JArr []" None]
  by (simp add: X_down_def X_base_def new_server_def new_Error_def)

text \<open>
  C2. Let the existence check of the store service answer \<open>true\<close> and its metadata
  fetch return a collection of dimension \<open>D\<close>, and let the provider have dimension \<open>d\<close>.
  If \<open>d = D\<close> the compatibility check returns valid with action \<open>compatible\<close>; if
  \<open>d \<noteq> D\<close> it returns invalid with action \<open>size_mismatch\<close>, the expected size \<open>d\<close>, the
  actual size \<open>D\<close> and exactly three suggestions: another embedding service that produces
  \<open>D\<close> dimensions, a new collection of \<open>d\<close> dimensions, and deleting and recreating the
  collection.
\<close>

theorem compatibility_of_existing_collection:
  assumes "collectionExists svc c w = (Inr True, w1)"
    and "getCollectionInfo svc c w1 = (Inr (Some info), w2)"
    and "vectorSize p = Inr d"
  shows "(ci_vectorSize info = d \<longrightarrow>
            validateEmbeddingCompatibility svc c p w =
              (Inr \<lparr> isValid = True, reason = ''Vector dimensions are compatible'',
                     expectedVectorSize = d, actualVectorSize = Some (ci_vectorSize info),
                     action = compatible, suggestedActions = None \<rparr>, w2))
         \<and> (ci_vectorSize info \<noteq> d \<longrightarrow>
            validateEmbeddingCompatibility svc c p w =
              (Inr \<lparr> isValid = False,
                     reason = ''Vector size mismatch: collection expects ''
                        @ string_of_nat (ci_vectorSize info)
                        @ '', but embedding service produces '' @ string_of_nat d,
                     expectedVectorSize = d, actualVectorSize = Some (ci_vectorSize info),
                     action = size_mismatch,
                     suggestedActions =
                       Some [''Use a different embedding service that produces ''
                               @ string_of_nat (ci_vectorSize info) @ ''-dimensional vectors'',
                             ''Create a new collection with '' @ string_of_nat d
                               @ ''-dimensional vectors'',
                             ''Delete and recreate the collection (WARNING: this will lose all data)''] \<rparr>,
               w2))"
  using validate_existing [OF assms] by (simp add: mismatch_suggestions_def)

theorem compatibility_of_existing_collection_witness:
  "validateEmbeddingCompatibility (DefaultQdrantService X_docs4) ''docs''
       (OllamaEmbeddingService ''http://localhost:11434'' ''nomic-embed-text'' (Some 4)) new_server =
     (Inr \<lparr> isValid = True, reason = ''Vector dimensions are compatible'',
            expectedVectorSize = 4, actualVectorSize = Some 4,
            action = compatible, suggestedActions = None \<rparr>,
      new_server\<lparr>calls := [GetCollections, GetCollection ''docs'']\<rparr>)
   \<and> validateEmbeddingCompatibility (DefaultQdrantService X_docs4) ''docs''
       (FastEmbedService ''BAAI/bge-small-en'') new_server =
     (Inr \<lparr> isValid = False,
            reason = ''Vector size mismatch: collection expects 4, but embedding service produces 384'',
            expectedVectorSize = 384, actualVectorSize = Some 4,
            action = size_mismatch,
            suggestedActions =
              Some [''Use a different embedding service that produces 4-dimensional vectors'',
                    ''Create a new collection with 384-dimensional vectors'',
                    ''Delete and recreate the collection (WARNING: this will lose all data)''] \<rparr>,
      new_server\<lparr>calls := [GetCollections, GetCollection ''docs'']\<rparr>)"
proof -
  let ?w1 = "new_server\<lparr>calls := [GetCollections]\<rparr>"
  let ?w2 = "new_server\<lparr>calls := [GetCollections, GetCollection ''docs'']\<rparr>"
  let ?info = "\<lparr> ci_vectorSize = 4, ci_distance = ''Cosine'' \<rparr>"
  have e: "collectionExists (DefaultQdrantService X_docs4) ''docs'' new_server = (Inr True, ?w1)"
    by (simp add: DefaultQdrantService_def X_docs4_def X_base_def new_server_def
          collectionExists_ok)
  have g: "getCollectionInfo (DefaultQdrantService X_docs4) ''docs'' ?w1 = (Inr (Some ?info), ?w2)"
    by (simp add: DefaultQdrantService_def X_docs4_def X_base_def new_server_def
          Default_getCollectionInfo_def io_catch_def io_bind_def outside_def)
  have s: "string_of_nat 4 = ''4''" "string_of_nat 384 = ''384''"
    by (simp_all add: string_of_nat.simps digit_char_def)
  show ?thesis
    using compatibility_of_existing_collection [OF e g, of
        "OllamaEmbeddingService ''http://localhost:11434'' ''nomic-embed-text'' (Some 4)" 4]
      compatibility_of_existing_collection [OF e g, of "FastEmbedService ''BAAI/bge-small-en''" 384]
    by (simp add: s)
qed

text \<open>
  C3. When the existence check of the store service answers \<open>false\<close>, the
  compatibility check returns valid with action \<open>create_collection\<close>, the provider's
  dimension as the expected size and no actual size, whatever that dimension is. The
  state it leaves is the state right after the existence check, so nothing else of the
  service ran: no metadata fetch, whatever that would have answered. With the store
  service of the repository this means: when the store's list of collections does not
  hold the name, the only backing call is that one listing.
\<close>

theorem missing_collection_is_first_write:
  assumes "vectorSize p = Inr d"
  shows "(collectionExists svc c w = (Inr False, w1) \<longrightarrow>
            validateEmbeddingCompatibility svc c p w =
              (Inr \<lparr> isValid = True,
                     reason = ''Collection does not exist - will be created with correct dimensions'',
                     expectedVectorSize = d, actualVectorSize = None,
                     action = create_collection, suggestedActions = None \<rparr>, w1))
         \<and> (client_getCollections X (calls w) = Inr listed
              \<and> c \<notin> set (case listed of None \<Rightarrow> [] | Some names \<Rightarrow> names) \<longrightarrow>
            validateEmbeddingCompatibility (DefaultQdrantService X) c p w =
              (Inr \<lparr> isValid = True,
                     reason = ''Collection does not exist - will be created with correct dimensions'',
                     expectedVectorSize = d, actualVectorSize = None,
                     action = create_collection, suggestedActions = None \<rparr>,
               w\<lparr>calls := calls w @ [GetCollections]\<rparr>))"
proof (intro conjI impI)
  assume "collectionExists svc c w = (Inr False, w1)"
  then show "validateEmbeddingCompatibility svc c p w =
              (Inr \<lparr> isValid = True,
                     reason = ''Collection does not exist - will be created with correct dimensions'',
                     expectedVectorSize = d, actualVectorSize = None,
                     action = create_collection, suggestedActions = None \<rparr>, w1)"
    using assms by (rule validate_missing)
next
  assume h: "client_getCollections X (calls w) = Inr listed
              \<and> c \<notin> set (case listed of None \<Rightarrow> [] | Some names \<Rightarrow> names)"
  then have "collectionExists (DefaultQdrantService X) c w =
               (Inr False, w\<lparr>calls := calls w @ [GetCollections]\<rparr>)"
    by (simp add: DefaultQdrantService_def collectionExists_ok)
  then show "validateEmbeddingCompatibility (DefaultQdrantService X) c p w =
              (Inr \<lparr> isValid = True,
                     reason = ''Collection does not exist - will be created with correct dimensions'',
                     expectedVectorSize = d, actualVectorSize = None,
                     action = create_collection, suggestedActions = None \<rparr>,
               w\<lparr>calls := calls w @ [GetCollections]\<rparr>)"
    using assms by (rule validate_missing)
qed

theorem missing_collection_is_first_write_witness:
  "validateEmbeddingCompatibility (DefaultQdrantService X_base) ''docs''
       (OllamaEmbeddingService ''http://localhost:11434'' ''nomic-embed-text'' (Some 768))
       new_server =
     (Inr \<lparr> isValid = True,
            reason = ''Collection does not exist - will be created with correct dimensions'',
            expectedVectorSize = 768, actualVectorSize = None,
            action = create_collection, suggestedActions = None \<rparr>,
      new_server\<lparr>calls := [GetCollections]\<rparr>)"
proof -
  have v: "vectorSize (OllamaEmbeddingService ''http://localhost:11434'' ''nomic-embed-text''
             (Some 768)) = Inr 768"
    by simp
  have e: "collectionExists (DefaultQdrantService X_base) ''docs'' new_server =
             (Inr False, new_server\<lparr>calls := [GetCollections]\<rparr>)"
    by (simp add: DefaultQdrantService_def X_base_def new_server_def collectionExists_ok)
  have l: "client_getCollections X_base (calls new_server) = Inr (Some [])
           \<and> ''docs'' \<notin> set (case Some [] of None \<Rightarrow> [] | Some names \<Rightarrow> names)"
    by (simp add: X_base_def)
  from missing_collection_is_first_write
    [OF v, of "DefaultQdrantService X_base" "''docs''" new_server
       "new_server\<lparr>calls := [GetCollections]\<rparr>" X_base "Some []"] e l
  show ?thesis by (simp add: new_server_def)
qed

text \<open>
  C10 (as stated, refuted). \<open>createEmbeddingService\<close> returns an Ollama provider whose
  dimension is not yet initialised. For that provider the compatibility check throws:
  a store service whose existence check raises lands in the \<open>catch\<close>, which reads
  \<open>vectorSize\<close> again and throws the getter's error; with the store service of the
  repository the getter throws inside the \<open>try\<close> and then again inside the \<open>catch\<close>.
\<close>

theorem compatibility_check_throws_counterexample:
  "createEmbeddingService \<lparr> cfg_type = ollama, apiKey = None, endpoint = None, model = None \<rparr> =
     Inr (OllamaEmbeddingService ''http://host.docker.internal:11434'' ''nomic-embed-text'' None)
   \<and> collectionExists raising_service ''docs'' new_server =
       (Inl (new_Error ''connection refused''), new_server)
   \<and> validateEmbeddingCompatibility raising_service ''docs''
       (OllamaEmbeddingService ''http://host.docker.internal:11434'' ''nomic-embed-text'' None)
       new_server =
     (Inl (new_Error ''Vector size not initialized. Call initializeVectorSize() first.''),
      new_server)
   \<and> fst (validateEmbeddingCompatibility (DefaultQdrantService X_base) ''docs''
       (OllamaEmbeddingService ''http://host.docker.internal:11434'' ''nomic-embed-text'' None)
       new_server) =
     Inl (new_Error ''Vector size not initialized. Call initializeVectorSize() first.'')"
  by (simp add: createEmbeddingService_def new_OllamaEmbeddingService_def or_default_def
        raising_service_def validateEmbeddingCompatibility_def io_catch_def io_bind_def
        DefaultQdrantService_def X_base_def new_server_def collectionExists_ok)

text \<open>
  C10 (amended). For every collection name, every store service and every provider
  whose dimension is resolved (\<open>vectorSize\<close> returns \<open>d\<close>: the three providers of fixed
  dimension, and Ollama once initialised), the compatibility check never throws. When
  the existence check raises, or the collection exists and the metadata fetch raises,
  it returns an invalid verdict with action \<open>error\<close> and the reason
  \<open>Validation failed: <underlying message>\<close>.
\<close>

theorem compatibility_check_catches_store_errors:
  assumes "vectorSize p = Inr d"
  shows "(collectionExists svc c w = (Inl err, w1) \<longrightarrow>
            validateEmbeddingCompatibility svc c p w =
              (Inr \<lparr> isValid = False, reason = ''Validation failed: '' @ error_message err,
                     expectedVectorSize = d, actualVectorSize = None, action = action_error,
                     suggestedActions = None \<rparr>, w1))
         \<and> (collectionExists svc c w = (Inr True, w1)
              \<and> getCollectionInfo svc c w1 = (Inl err, w2) \<longrightarrow>
            validateEmbeddingCompatibility svc c p w =
              (Inr \<lparr> isValid = False, reason = ''Validation failed: '' @ error_message err,
                     expectedVectorSize = d, actualVectorSize = None, action = action_error,
                     suggestedActions = None \<rparr>, w2))
         \<and> (\<exists>verdict w'. validateEmbeddingCompatibility svc c p w = (Inr verdict, w'))"
  using assms
  by (auto simp add: validate_exists_raises validate_info_raises validate_total
        simp del: split_paired_Ex)

theorem compatibility_check_catches_store_errors_witness:
  "validateEmbeddingCompatibility raising_service ''docs''
       (FastEmbedService ''BAAI/bge-small-en'') new_server =
     (Inr \<lparr> isValid = False, reason = ''Validation failed: connection refused'',
            expectedVectorSize = 384, actualVectorSize = None, action = action_error,
            suggestedActions = None \<rparr>, new_server)
   \<and> validateEmbeddingCompatibility raising_info_service ''docs''
       (FastEmbedService ''BAAI/bge-small-en'') new_server =
     (Inr \<lparr> isValid = False, reason = ''Validation failed: timed out'',
            expectedVectorSize = 384, actualVectorSize = None, action = action_error,
            suggestedActions = None \<rparr>, new_server\<lparr>calls := [GetCollections]\<rparr>)"
proof -
  have v: "vectorSize (FastEmbedService ''BAAI/bge-small-en'') = Inr 384"
    by simp
  have e: "collectionExists raising_service ''docs'' new_server =
             (Inl (new_Error ''connection refused''), new_server)"
    by (simp add: raising_service_def)
  have g: "collectionExists raising_info_service ''docs'' new_server =
             (Inr True, new_server\<lparr>calls := [GetCollections]\<rparr>)
           \<and> getCollectionInfo raising_info_service ''docs''
               (new_server\<lparr>calls := [GetCollections]\<rparr>) =
             (Inl (new_Error ''timed out''), new_server\<lparr>calls := [GetCollections]\<rparr>)"
    by (simp add: raising_info_service_def DefaultQdrantService_def X_docs4_def X_base_def
          new_server_def collectionExists_ok)
  from compatibility_check_catches_store_errors
    [OF v, of raising_service "''docs''" new_server "new_Error ''connection refused''" new_server]
    e
  have a: "validateEmbeddingCompatibility raising_service ''docs''
             (FastEmbedService ''BAAI/bge-small-en'') new_server =
           (Inr \<lparr> isValid = False,
                  reason = ''Validation failed: '' @ error_message (new_Error ''connection refused''),
                  expectedVectorSize = 384, actualVectorSize = None, action = action_error,
                  suggestedActions = None \<rparr>, new_server)"
    by blast
  from compatibility_check_catches_store_errors
    [OF v, of raising_info_service "''docs''" new_server "new_Error ''timed out''"
       "new_server\<lparr>calls := [GetCollections]\<rparr>"
       "new_server\<lparr>calls := [GetCollections]\<rparr>"]
    g
  have b: "validateEmbeddingCompatibility raising_info_service ''docs''
             (FastEmbedService ''BAAI/bge-small-en'') new_server =
           (Inr \<lparr> isValid = False,
                  reason = ''Validation failed: '' @ error_message (new_Error ''timed out''),
                  expectedVectorSize = 384, actualVectorSize = None, action = action_error,
                  suggestedActions = None \<rparr>, new_server\<lparr>calls := [GetCollections]\<rparr>)"
    by blast
  show ?thesis
    unfolding a b by (simp add: new_Error_def)
qed

section \<open>What the steps leave unchanged\<close>

lemma no_store_mutation_iff:
  "no_store_mutation w w' =
     (\<exists>cs. calls w' = calls w @ cs \<and> filter store_mutation cs = [])"
proof
  assume "no_store_mutation w w'"
  then have "calls w' = calls w @ drop (length (calls w)) (calls w')"
    and "filter store_mutation (drop (length (calls w)) (calls w')) = []"
    unfolding no_store_mutation_def by (metis append_take_drop_id, simp)
  then show "\<exists>cs. calls w' = calls w @ cs \<and> filter store_mutation cs = []"
    by blast
next
  assume "\<exists>cs. calls w' = calls w @ cs \<and> filter store_mutation cs = []"
  then show "no_store_mutation w w'"
    unfolding no_store_mutation_def by auto
qed

lemma no_store_mutation_refl: "no_store_mutation w w"
  by (simp add: no_store_mutation_def)

lemma no_store_mutation_trans:
  "no_store_mutation a b \<Longrightarrow> no_store_mutation b c \<Longrightarrow> no_store_mutation a c"
  unfolding no_store_mutation_iff by auto

lemma cache_kept_refl: "cache_kept w w"
  by (simp add: cache_kept_def)

lemma cache_kept_trans: "cache_kept a b \<Longrightarrow> cache_kept b c \<Longrightarrow> cache_kept a c"
  unfolding cache_kept_def by blast

lemma always_return: "(\<And>w. R w w) \<Longrightarrow> always R (io_return x)"
  by (simp add: always_def)

lemma always_throw: "(\<And>w. R w w) \<Longrightarrow> always R (io_throw e)"
  by (simp add: always_def)

lemma always_lift: "(\<And>w. R w w) \<Longrightarrow> always R (io_lift r)"
  by (simp add: always_def)

lemma always_bind:
  assumes "\<And>a b c. R a b \<Longrightarrow> R b c \<Longrightarrow> R a c"
    and "always R m" and "\<And>x. always R (f x)"
  shows "always R (io_bind m f)"
  unfolding always_def
proof
  fix w
  obtain r w1 where m: "m w = (r, w1)" by (cases "m w")
  have 1: "R w w1" using assms(2) m unfolding always_def by (metis snd_conv)
  show "R w (snd (io_bind m f w))"
  proof (cases r)
    case (Inl e)
    then show ?thesis using m 1 by (simp add: io_bind_def)
  next
    case (Inr x)
    have "R w1 (snd (f x w1))" using assms(3) unfolding always_def by blast
    then show ?thesis using m Inr 1 assms(1) by (auto simp add: io_bind_def)
  qed
qed

lemma always_catch:
  assumes "\<And>a b c. R a b \<Longrightarrow> R b c \<Longrightarrow> R a c"
    and "always R m" and "\<And>e. always R (h e)"
  shows "always R (io_catch m h)"
  unfolding always_def
proof
  fix w
  obtain r w1 where m: "m w = (r, w1)" by (cases "m w")
  have 1: "R w w1" using assms(2) m unfolding always_def by (metis snd_conv)
  show "R w (snd (io_catch m h w))"
  proof (cases r)
    case (Inr x)
    then show ?thesis using m 1 by (simp add: io_catch_def)
  next
    case (Inl e)
    have "R w1 (snd (h e w1))" using assms(3) unfolding always_def by blast
    then show ?thesis using m Inl 1 assms(1) by (auto simp add: io_catch_def)
  qed
qed

lemma always_state_dependent:
  "(\<And>w0. always R (m w0)) \<Longrightarrow> always R (\<lambda>w. m w w)"
  by (simp add: always_def)

subsection \<open>No store mutation\<close>

lemma nsm_outside: "\<not> store_mutation c \<Longrightarrow> always no_store_mutation (outside c a)"
  by (simp add: always_def outside_def no_store_mutation_def)

lemma nsm_calls_unchanged:
  "(\<And>w. calls (snd (m w)) = calls w) \<Longrightarrow> always no_store_mutation m"
  by (simp add: always_def no_store_mutation_def)

lemmas nsm_return = always_return [of no_store_mutation, OF no_store_mutation_refl]
lemmas nsm_throw = always_throw [of no_store_mutation, OF no_store_mutation_refl]
lemmas nsm_lift = always_lift [of no_store_mutation, OF no_store_mutation_refl]
lemmas nsm_bind = always_bind [of no_store_mutation, OF no_store_mutation_trans]
lemmas nsm_catch = always_catch [of no_store_mutation, OF no_store_mutation_trans]

lemmas nsm_intros = nsm_return nsm_throw nsm_lift nsm_bind nsm_catch

lemma nsm_cache_get: "always no_store_mutation (cache_get k)"
  by (rule nsm_calls_unchanged) (simp add: cache_get_def)

lemma nsm_cache_set: "always no_store_mutation (cache_set k n)"
  by (rule nsm_calls_unchanged) (simp add: cache_set_def)

lemma nsm_setChunkSize: "always no_store_mutation (setChunkSize X n)"
  by (rule nsm_calls_unchanged) (simp add: setChunkSize_def Let_def split: option.split)

lemma nsm_setChunkOverlap: "always no_store_mutation (setChunkOverlap X n)"
  by (rule nsm_calls_unchanged) (simp add: setChunkOverlap_def Let_def split: option.split)

lemma nsm_configure:
  "(\<And>n. always no_store_mutation (setter n)) \<Longrightarrow> always no_store_mutation (configure setter arg)"
  by (simp add: configure_def nsm_return split: option.split)

lemma nsm_detect: "always no_store_mutation (detectModelDimensions X ep m)"
  unfolding detectModelDimensions_def
  by (intro nsm_intros nsm_outside) (simp_all add: nsm_intros split: json.split list.split)

lemma nsm_initialize: "always no_store_mutation (initializeVectorSize X ep m)"
  unfolding initializeVectorSize_def
  by (intro nsm_intros nsm_cache_get)
     (auto intro!: nsm_intros nsm_cache_set nsm_detect split: option.split)

lemma nsm_createAndInitialize:
  "always no_store_mutation (createAndInitializeEmbeddingService X config)"
  unfolding createAndInitializeEmbeddingService_def
  by (intro nsm_intros)
     (auto intro!: nsm_intros nsm_initialize split: EmbeddingGenerator.split)

lemma nsm_remote:
  "always no_store_mutation (remote_generateEmbeddings X who dm ep m texts)"
  unfolding remote_generateEmbeddings_def
  by (intro nsm_intros nsm_outside) (simp_all add: nsm_intros split: json.split)

lemma nsm_generateEmbeddings:
  "always no_store_mutation (generateEmbeddings X es texts)"
proof (cases es)
  case (OllamaEmbeddingService ep m vs)
  show ?thesis
    unfolding OllamaEmbeddingService generateEmbeddings.simps
    by (intro nsm_intros nsm_outside)
       (auto intro!: nsm_intros nsm_initialize split: option.split json.split)
qed (auto intro!: nsm_intros nsm_remote nsm_outside)

lemma nsm_listCollections: "always no_store_mutation (Default_listCollections X)"
  unfolding Default_listCollections_def handleQdrantError_def
  by (intro nsm_intros nsm_outside) simp_all

lemma nsm_collectionExists: "always no_store_mutation (Default_collectionExists X name)"
  unfolding Default_collectionExists_def
  by (intro nsm_intros nsm_listCollections)

lemma nsm_getCollectionInfo: "always no_store_mutation (Default_getCollectionInfo X name)"
  unfolding Default_getCollectionInfo_def
  by (intro nsm_intros nsm_outside) simp_all

lemma nsm_validate:
  "always no_store_mutation (validateEmbeddingCompatibility (DefaultQdrantService X) c es)"
  unfolding validateEmbeddingCompatibility_def
  by (intro nsm_intros)
     (auto intro!: nsm_intros nsm_collectionExists nsm_getCollectionInfo
        simp: DefaultQdrantService_def split: option.split)

lemma nsm_processText: "always no_store_mutation (processText X content source)"
  by (simp add: always_def processText_def io_bind_def outside_def no_store_mutation_def
        split: sum.split)

lemma nsm_until_verdict:
  "always no_store_mutation (add_documents_until_verdict X args)"
  unfolding add_documents_until_verdict_def processFile_def
  by (intro nsm_intros nsm_configure nsm_setChunkSize nsm_setChunkOverlap nsm_outside
        nsm_processText nsm_createAndInitialize nsm_validate) simp_all

subsection \<open>Non-zero cache entries stay\<close>

lemma ck_cache_unchanged:
  "(\<And>w. dimensionCache (snd (m w)) = dimensionCache w) \<Longrightarrow> always cache_kept m"
  by (simp add: always_def cache_kept_def)

lemma ck_outside: "always cache_kept (outside c a)"
  by (rule ck_cache_unchanged) (simp add: outside_def)

lemmas ck_return = always_return [of cache_kept, OF cache_kept_refl]
lemmas ck_throw = always_throw [of cache_kept, OF cache_kept_refl]
lemmas ck_lift = always_lift [of cache_kept, OF cache_kept_refl]
lemmas ck_bind = always_bind [of cache_kept, OF cache_kept_trans]
lemmas ck_catch = always_catch [of cache_kept, OF cache_kept_trans]

lemmas ck_intros = ck_return ck_throw ck_lift ck_bind ck_catch ck_outside

lemma ck_setChunkSize: "always cache_kept (setChunkSize X n)"
  by (rule ck_cache_unchanged) (simp add: setChunkSize_def Let_def split: option.split)

lemma ck_setChunkOverlap: "always cache_kept (setChunkOverlap X n)"
  by (rule ck_cache_unchanged) (simp add: setChunkOverlap_def Let_def split: option.split)

lemma ck_configure:
  "(\<And>n. always cache_kept (setter n)) \<Longrightarrow> always cache_kept (configure setter arg)"
  by (simp add: configure_def ck_return split: option.split)

lemma ck_detect: "always cache_kept (detectModelDimensions X ep m)"
  unfolding detectModelDimensions_def
  by (intro ck_intros) (simp_all add: ck_intros split: json.split list.split)

lemma detect_cache: "dimensionCache (snd (detectModelDimensions X ep m w)) = dimensionCache w"
  by (simp add: detectModelDimensions_def io_bind_def outside_def
        split: sum.split json.split list.split)

lemma cached_dimension_reused_lemma:
  assumes "dimensionCache w (modelKey ep m) = Some n" "n \<noteq> 0"
  shows "initializeVectorSize X ep m w = (Inr n, w)"
  using assms by (simp add: initializeVectorSize_def io_bind_def cache_get_def)

lemma ck_initialize: "always cache_kept (initializeVectorSize X ep m)"
  unfolding always_def
proof
  fix w
  show "cache_kept w (snd (initializeVectorSize X ep m w))"
  proof (cases "\<exists>n. dimensionCache w (modelKey ep m) = Some n \<and> n \<noteq> 0")
    case True
    then obtain n where "dimensionCache w (modelKey ep m) = Some n" "n \<noteq> 0" by blast
    then show ?thesis
      by (simp add: cached_dimension_reused_lemma cache_kept_refl)
  next
    case False
    obtain r w1 where d: "detectModelDimensions X ep m w = (r, w1)"
      by (cases "detectModelDimensions X ep m w")
    have c: "dimensionCache w1 = dimensionCache w"
      using detect_cache [of X ep m w] d by simp
    have miss: "(case dimensionCache w (modelKey ep m) of None \<Rightarrow> None
                 | Some n \<Rightarrow> if n = 0 then None else Some n) = None"
      using False by (simp split: option.split)
    show ?thesis
    proof (cases r)
      case (Inl e)
      then show ?thesis
        using d c miss
        by (simp add: initializeVectorSize_def io_bind_def io_catch_def cache_get_def
              cache_kept_def)
    next
      case (Inr emb)
      then show ?thesis
        using d c miss False
        by (auto simp add: initializeVectorSize_def io_bind_def io_catch_def cache_get_def
              cache_set_def cache_kept_def)
    qed
  qed
qed

lemma ck_createAndInitialize:
  "always cache_kept (createAndInitializeEmbeddingService X config)"
  unfolding createAndInitializeEmbeddingService_def
  by (intro ck_intros)
     (auto intro!: ck_intros ck_initialize split: EmbeddingGenerator.split)

lemma ck_remote:
  "always cache_kept (remote_generateEmbeddings X who dm ep m texts)"
  unfolding remote_generateEmbeddings_def
  by (intro ck_intros) (simp_all add: ck_intros split: json.split)

lemma ck_generateEmbeddings:
  "always cache_kept (generateEmbeddings X es texts)"
proof (cases es)
  case (OllamaEmbeddingService ep m vs)
  show ?thesis
    unfolding OllamaEmbeddingService generateEmbeddings.simps
    by (intro ck_intros)
       (auto intro!: ck_intros ck_initialize split: option.split json.split)
qed (auto intro!: ck_intros ck_remote)

lemma ck_service:
  "always cache_kept (Default_listCollections X)"
  "always cache_kept (Default_collectionExists X name)"
  "always cache_kept (Default_getCollectionInfo X name)"
  "always cache_kept (Default_createCollection X name n)"
  "always cache_kept (Default_addDocuments X name docs)"
  "always cache_kept (Default_search X name v l)"
  unfolding Default_listCollections_def Default_collectionExists_def
    Default_getCollectionInfo_def Default_createCollection_def Default_addDocuments_def
    Default_search_def handleQdrantError_def Let_def
  by (safe intro!: ck_intros)

lemma ck_validate:
  "always cache_kept (validateEmbeddingCompatibility (DefaultQdrantService X) c es)"
  unfolding validateEmbeddingCompatibility_def
  by (intro ck_intros)
     (auto intro!: ck_intros ck_service simp: DefaultQdrantService_def split: option.split)

lemma ck_processText: "always cache_kept (processText X content source)"
  by (rule ck_cache_unchanged)
     (simp add: processText_def io_bind_def outside_def split: sum.split)

lemma ck_make_points: "always cache_kept (make_points X embeddings ics)"
  by (induction ics)
     (auto intro!: ck_intros simp del: io_return_apply io_throw_apply io_lift_apply)

lemma ck_handleSearch: "always cache_kept (handleSearch X args)"
  unfolding handleSearch_def
  by (intro ck_intros ck_createAndInitialize ck_validate)
     (auto intro!: ck_intros ck_generateEmbeddings ck_service
        simp: DefaultQdrantService_def Let_def)

lemma ck_handleAddDocuments: "always cache_kept (handleAddDocuments X args)"
  unfolding handleAddDocuments_def processFile_def
  by (intro ck_intros ck_configure ck_setChunkSize ck_setChunkOverlap ck_processText
        ck_createAndInitialize ck_validate)
     (auto intro!: ck_intros ck_generateEmbeddings ck_service ck_make_points
        simp: DefaultQdrantService_def Let_def)

section \<open>Properties of the two handlers\<close>

lemma io_bind_assoc: "io_bind (io_bind m f) g = io_bind m (\<lambda>x. io_bind (f x) g)"
  by (rule ext) (simp add: io_bind_def split: prod.split sum.split)

lemma io_bind_return_fun: "io_bind (io_return x) f = f x"
  by (rule ext) simp

lemma handleAddDocuments_split:
  "handleAddDocuments X args =
     io_catch
       (io_bind (add_documents_until_verdict X args) (add_documents_after_verdict X args))
       (\<lambda>error.
          io_return \<lparr> content_text = ''Error adding documents: '' @ error_message error,
                      isError = True \<rparr>)"
  by (simp add: handleAddDocuments_def add_documents_until_verdict_def
        add_documents_after_verdict_def io_bind_assoc io_bind_return_fun Let_def)

lemma always_D: "always R m \<Longrightarrow> m w = (r, w') \<Longrightarrow> R w w'"
  by (metis always_def snd_conv)

text \<open>
  C4. Let the steps of the ingest operation up to the compatibility check have run and
  produced a verdict. If the verdict is negative, the operation returns an error result
  (the compatibility error text) in the state it is in then. If the verdict is positive,
  the embeddings were generated and the vector-batch verdict is negative, the operation
  returns an error result (the vector validation text) in the state after the embedding
  call. In both cases the history from the start of the operation to its end holds no
  collection-creation, upsert or delete call: the store was not touched.
\<close>

theorem validation_failure_precedes_mutation:
  assumes until: "add_documents_until_verdict X args w = (Inr (chunks, es, verdict), w1)"
  shows "(\<not> isValid verdict \<longrightarrow>
            handleAddDocuments X args w =
              (Inr \<lparr> content_text = compatibility_error_text verdict, isError = True \<rparr>, w1)
            \<and> no_store_mutation w w1)
         \<and> (isValid verdict
              \<and> generateEmbeddings X es (map chunk_text chunks) w1 = (Inr generated, w2)
              \<and> vectorSize (snd generated) = Inr n
              \<and> \<not> dv_isValid (validateVectorData (runtime X) (fst generated) n) \<longrightarrow>
            handleAddDocuments X args w =
              (Inr \<lparr> content_text =
                       vector_validation_failed_text
                         (validateVectorData (runtime X) (fst generated) n),
                     isError = True \<rparr>, w2)
            \<and> no_store_mutation w w2)"
proof (intro conjI impI)
  have f1: "no_store_mutation w w1"
    using nsm_until_verdict until by (rule always_D)
  {
    assume "\<not> isValid verdict"
    then show "handleAddDocuments X args w =
              (Inr \<lparr> content_text = compatibility_error_text verdict, isError = True \<rparr>, w1)"
      using until
      by (simp add: handleAddDocuments_split io_catch_def io_bind_def
            add_documents_after_verdict_def)
    show "no_store_mutation w w1" by (rule f1)
  }
  {
    assume h: "isValid verdict
              \<and> generateEmbeddings X es (map chunk_text chunks) w1 = (Inr generated, w2)
              \<and> vectorSize (snd generated) = Inr n
              \<and> \<not> dv_isValid (validateVectorData (runtime X) (fst generated) n)"
    then show "handleAddDocuments X args w =
              (Inr \<lparr> content_text =
                       vector_validation_failed_text
                         (validateVectorData (runtime X) (fst generated) n),
                     isError = True \<rparr>, w2)"
      using until
      by (simp add: handleAddDocuments_split io_catch_def io_bind_def
            add_documents_after_verdict_def vector_validation_failed_text_def Let_def)
    have "no_store_mutation w1 w2"
      using nsm_generateEmbeddings h by (blast intro: always_D)
    with f1 show "no_store_mutation w w2"
      by (rule no_store_mutation_trans)
  }
qed

lemma created_provider_resolved:
  assumes "createAndInitializeEmbeddingService X config w = (Inr es, w1)"
  shows "\<exists>d. vectorSize es = Inr d"
proof (cases "createEmbeddingService config")
  case (Inl e)
  with assms show ?thesis
    by (simp add: createAndInitializeEmbeddingService_def)
next
  case (Inr service)
  show ?thesis
  proof (cases service)
    case (OllamaEmbeddingService ep m vs)
    with Inr assms show ?thesis
      by (cases "initializeVectorSize X ep m w")
         (auto simp add: createAndInitializeEmbeddingService_def io_bind_def split: sum.splits)
  qed (use Inr assms in \<open>auto simp add: createAndInitializeEmbeddingService_def\<close>)
qed

lemma format_result_nonempty: "format_result rt ir \<noteq> []"
  by (simp add: format_result_def Let_def nl_def)

lemma format_results_empty: "(format_results rt rs = []) = (rs = [])"
  by (cases rs) (simp_all add: format_results_def format_result_nonempty)

text \<open>
  C1 (amended). Let the provider be built and initialised, let the store's list of
  collections not hold the target collection, let the query embedding be generated and
  let its vector verdict be valid. Then the search operation issues exactly one more
  call, the store's similarity search on the target collection, and returns what that
  call decides: the error \<open>Error searching: Failed to search collection: <message>\<close>
  when the store rejects it, and otherwise the formatted hits, or \<open>No results found.\<close>
  exactly when there is no hit (followed by the query vector's warnings, if any). Up
  to the search call the history holds no collection-creation, upsert or delete call.
\<close>

theorem search_on_missing_collection:
  assumes init: "createAndInitializeEmbeddingService X
                   (config_from_env X (search_embeddingService args)) w = (Inr es, w1)"
    and listed: "client_getCollections X (calls w1) = Inr listed"
    and absent: "search_collection args \<notin> set (case listed of None \<Rightarrow> [] | Some names \<Rightarrow> names)"
    and gen: "generateEmbeddings X es [query args] (w1\<lparr>calls := calls w1 @ [GetCollections]\<rparr>)
                = (Inr generated, w2)"
    and size: "vectorSize (snd generated) = Inr n"
    and valid: "dv_isValid (validateVectorData (runtime X) [first_or_undefined (fst generated)] n)"
  shows "handleSearch X args w =
           (Inr (case client_search X (calls w2) (search_collection args)
                        (first_or_undefined (fst generated))
                        (case limit args of None \<Rightarrow> Fin 10 | Some k \<Rightarrow> k) of
                   Inl err \<Rightarrow>
                     \<lparr> content_text = ''Error searching: Failed to search collection: ''
                                        @ error_message err,
                       isError = True \<rparr>
                 | Inr hits \<Rightarrow>
                     \<lparr> content_text =
                         (if hits = [] then ''No results found.''
                          else format_results (runtime X) (map (to_SearchResult (runtime X)) hits))
                         @ query_warnings_suffix
                             (validateVectorData (runtime X) [first_or_undefined (fst generated)] n),
                       isError = False \<rparr>),
            w2\<lparr>calls := calls w2 @ [SearchPoints (search_collection args)
                                      (first_or_undefined (fst generated))
                                      (case limit args of None \<Rightarrow> Fin 10 | Some k \<Rightarrow> k)]\<rparr>)
         \<and> no_store_mutation w w2"
proof
  obtain d where d: "vectorSize es = Inr d"
    using created_provider_resolved [OF init] by blast
  let ?w1' = "w1\<lparr>calls := calls w1 @ [GetCollections]\<rparr>"
  have v: "validateEmbeddingCompatibility (DefaultQdrantService X) (search_collection args) es w1 =
             (Inr \<lparr> isValid = True,
                    reason = ''Collection does not exist - will be created with correct dimensions'',
                    expectedVectorSize = d, actualVectorSize = None,
                    action = create_collection, suggestedActions = None \<rparr>, ?w1')"
    by (rule validate_missing [OF _ d])
       (use absent in \<open>simp add: DefaultQdrantService_def collectionExists_ok [OF listed]\<close>)
  show "handleSearch X args w =
           (Inr (case client_search X (calls w2) (search_collection args)
                        (first_or_undefined (fst generated))
                        (case limit args of None \<Rightarrow> Fin 10 | Some k \<Rightarrow> k) of
                   Inl err \<Rightarrow>
                     \<lparr> content_text = ''Error searching: Failed to search collection: ''
                                        @ error_message err,
                       isError = True \<rparr>
                 | Inr hits \<Rightarrow>
                     \<lparr> content_text =
                         (if hits = [] then ''No results found.''
                          else format_results (runtime X) (map (to_SearchResult (runtime X)) hits))
                         @ query_warnings_suffix
                             (validateVectorData (runtime X) [first_or_undefined (fst generated)] n),
                       isError = False \<rparr>),
            w2\<lparr>calls := calls w2 @ [SearchPoints (search_collection args)
                                      (first_or_undefined (fst generated))
                                      (case limit args of None \<Rightarrow> Fin 10 | Some k \<Rightarrow> k)]\<rparr>)"
  proof (cases "client_search X (calls w2) (search_collection args)
                        (first_or_undefined (fst generated))
                        (case limit args of None \<Rightarrow> Fin 10 | Some k \<Rightarrow> k)")
    case (Inl err)
    show ?thesis
      using init v gen size valid search_fail [OF Inl]
      by (simp add: handleSearch_def io_catch_def io_bind_def Let_def Inl
            DefaultQdrantService_def new_Error_def)
  next
    case (Inr hits)
    show ?thesis
      using init v gen size valid search_ok [OF Inr]
      by (simp add: handleSearch_def io_catch_def io_bind_def Let_def Inr
            DefaultQdrantService_def query_warnings_suffix_def format_results_empty)
  qed
  have "no_store_mutation w w1"
    using nsm_createAndInitialize init by (rule always_D)
  moreover have "no_store_mutation w1 ?w1'"
    using nsm_validate v by (rule always_D)
  moreover have "no_store_mutation ?w1' w2"
    using nsm_generateEmbeddings gen by (rule always_D)
  ultimately show "no_store_mutation w w2"
    by (blast intro: no_store_mutation_trans)
qed

section \<open>The handlers on concrete inputs\<close>

text \<open>The definitions a run on a concrete input unfolds.\<close>

lemmas run_defs =
  io_bind_def io_catch_def outside_def Let_def
  new_server_def new_TextProcessor_def new_Error_def
  config_from_env_def createEmbeddingService_def createAndInitializeEmbeddingService_def
  new_OllamaEmbeddingService_def new_FastEmbedService_def or_default_def or_str_def
  initializeVectorSize_def cache_get_def cache_set_def modelKey_def detectModelDimensions_def
  validateEmbeddingCompatibility_def DefaultQdrantService_def
  Default_listCollections_def Default_collectionExists_def Default_getCollectionInfo_def
  Default_createCollection_def Default_addDocuments_def Default_search_def
  handleQdrantError_def mismatch_suggestions_def
  validateVectorData_def check_vector_def non_number_def size_message_def
  first_or_undefined_def configure_def setChunkSize_def setChunkOverlap_def
  processFile_def processText_def to_chunk_def opt_prop_def
  compatibility_error_text_def chunk_payload_def js_nth_def
  string_of_nat.simps digit_char_def

text \<open>
  C1 (as stated, refuted). The store lists no collection, so the target collection
  \<open>docs\<close> does not exist. The search operation still sends the similarity search to
  the store, as the last of its four outside calls, and since the store rejects it the
  result is an error, not \<open>No results found.\<close>
\<close>

theorem search_issues_store_call_counterexample:
  "client_getCollections X_base (calls new_server) = Inr (Some [])
   \<and> fst (handleSearch X_base search_docs new_server) =
       Inr \<lparr> content_text = ''Error searching: Failed to search collection: Not Found'',
             isError = True \<rparr>
   \<and> calls (snd (handleSearch X_base search_docs new_server)) =
       [AxiosPost ''http://host.docker.internal:11434/api/embed'' ''nomic-embed-text'' [''test''],
        GetCollections,
        AxiosPost ''http://host.docker.internal:11434/api/embed'' ''nomic-embed-text'' [''hello''],
        SearchPoints ''docs'' (JArr [JNum (Fin 0.1), JNum (Fin 0.2)]) (Fin 10)]"
  by (simp add: handleSearch_def X_base_def search_docs_def rt0_def run_defs)

theorem search_on_missing_collection_witness:
  "fst (handleSearch X_no_hits search_docs new_server) =
     Inr \<lparr> content_text = ''No results found.'', isError = False \<rparr>
   \<and> calls (snd (handleSearch X_no_hits search_docs new_server)) =
       [AxiosPost ''http://host.docker.internal:11434/api/embed'' ''nomic-embed-text'' [''test''],
        GetCollections,
        AxiosPost ''http://host.docker.internal:11434/api/embed'' ''nomic-embed-text'' [''hello''],
        SearchPoints ''docs'' (JArr [JNum (Fin 0.1), JNum (Fin 0.2)]) (Fin 10)]"
proof -
  let ?es = "OllamaEmbeddingService ''http://host.docker.internal:11434'' ''nomic-embed-text'' (Some 2)"
  let ?probe = "AxiosPost ''http://host.docker.internal:11434/api/embed'' ''nomic-embed-text'' [''test'']"
  let ?embed = "AxiosPost ''http://host.docker.internal:11434/api/embed'' ''nomic-embed-text'' [''hello'']"
  let ?cache = "(\<lambda>k. None)(''http://host.docker.internal:11434:nomic-embed-text'' \<mapsto> 2)"
  let ?w1 = "\<lparr> calls = [?probe], dimensionCache = ?cache, textProcessor = new_TextProcessor \<rparr>"
  let ?w2 = "\<lparr> calls = [?probe, GetCollections, ?embed], dimensionCache = ?cache,
              textProcessor = new_TextProcessor \<rparr>"
  let ?generated = "([JArr [JNum (Fin 0.1), JNum (Fin 0.2)]], ?es)"
  have init: "createAndInitializeEmbeddingService X_no_hits
                 (config_from_env X_no_hits (search_embeddingService search_docs)) new_server
              = (Inr ?es, ?w1)"
    by (simp add: X_no_hits_def X_base_def search_docs_def run_defs numeral_2_eq_2)
  have listed: "client_getCollections X_no_hits (calls ?w1) = Inr (Some [])"
    by (simp add: X_no_hits_def X_base_def)
  have absent: "search_collection search_docs \<notin> set (case Some [] of None \<Rightarrow> [] | Some names \<Rightarrow> names)"
    by simp
  have gen: "generateEmbeddings X_no_hits ?es [query search_docs]
                (?w1\<lparr>calls := calls ?w1 @ [GetCollections]\<rparr>) = (Inr ?generated, ?w2)"
    by (simp add: X_no_hits_def X_base_def search_docs_def run_defs)
  have size: "vectorSize (snd ?generated) = Inr 2"
    by simp
  have valid: "dv_isValid (validateVectorData (runtime X_no_hits)
                 [first_or_undefined (fst ?generated)] 2)"
    by (simp add: X_no_hits_def X_base_def rt0_def run_defs)
  have r: "handleSearch X_no_hits search_docs new_server =
           (Inr (case client_search X_no_hits (calls ?w2) (search_collection search_docs)
                        (first_or_undefined (fst ?generated))
                        (case limit search_docs of None \<Rightarrow> Fin 10 | Some k \<Rightarrow> k) of
                   Inl err \<Rightarrow>
                     \<lparr> content_text = ''Error searching: Failed to search collection: ''
                                        @ error_message err,
                       isError = True \<rparr>
                 | Inr hits \<Rightarrow>
                     \<lparr> content_text =
                         (if hits = [] then ''No results found.''
                          else format_results (runtime X_no_hits)
                                 (map (to_SearchResult (runtime X_no_hits)) hits))
                         @ query_warnings_suffix
                             (validateVectorData (runtime X_no_hits)
                                [first_or_undefined (fst ?generated)] 2),
                       isError = False \<rparr>),
            ?w2\<lparr>calls := calls ?w2 @ [SearchPoints (search_collection search_docs)
                                      (first_or_undefined (fst ?generated))
                                      (case limit search_docs of None \<Rightarrow> Fin 10 | Some k \<Rightarrow> k)]\<rparr>)"
    using search_on_missing_collection [OF init listed absent gen size valid] by blast
  show ?thesis
    unfolding r
    by (simp add: X_no_hits_def X_base_def search_docs_def rt0_def query_warnings_suffix_def
          run_defs)
qed

theorem validation_failure_precedes_mutation_witness:
  "handleAddDocuments X_docs4 add_with_fastembed new_server =
     (Inr \<lparr> content_text =
              ''Embedding compatibility error: Vector size mismatch: collection expects 4, but embedding service produces 384''
                @ nl @ nl @ ''Suggested actions:'' @ nl
                @ ''- Use a different embedding service that produces 4-dimensional vectors'' @ nl
                @ ''- Create a new collection with 384-dimensional vectors'' @ nl
                @ ''- Delete and recreate the collection (WARNING: this will lose all data)'',
            isError = True \<rparr>,
      new_server\<lparr>calls := [ReadFileSync ''notes.txt'',
                            CreateDocuments (Fin 1000) (Fin 200) ''alpha'',
                            GetCollections, GetCollection ''docs'']\<rparr>)
   \<and> handleAddDocuments X_base add_with_fastembed new_server =
     (Inr \<lparr> content_text =
              ''Vector validation failed:'' @ nl @ ''Vector at index 0 has size 3, expected 384'',
            isError = True \<rparr>,
      new_server\<lparr>calls := [ReadFileSync ''notes.txt'',
                            CreateDocuments (Fin 1000) (Fin 200) ''alpha'',
                            GetCollections,
                            FastEmbed ''BAAI/bge-small-en'' [''alpha'']]\<rparr>)
   \<and> no_store_mutation new_server
        (snd (handleAddDocuments X_docs4 add_with_fastembed new_server))
   \<and> no_store_mutation new_server
        (snd (handleAddDocuments X_base add_with_fastembed new_server))"
proof -
  let ?chunks = "[\<lparr> chunk_text = ''alpha'',
                    chunk_meta = \<lparr> cm_index = 0, cm_source = Some ''notes.txt'',
                                   cm_start = JUndefined, cm_end = JUndefined \<rparr> \<rparr>]"
  let ?es = "FastEmbedService ''BAAI/bge-small-en''"
  let ?bad = "\<lparr> isValid = False,
               reason = ''Vector size mismatch: collection expects 4, but embedding service produces 384'',
               expectedVectorSize = 384, actualVectorSize = Some 4, action = size_mismatch,
               suggestedActions =
                 Some [''Use a different embedding service that produces 4-dimensional vectors'',
                       ''Create a new collection with 384-dimensional vectors'',
                       ''Delete and recreate the collection (WARNING: this will lose all data)''] \<rparr>"
  let ?good = "\<lparr> isValid = True,
                reason = ''Collection does not exist - will be created with correct dimensions'',
                expectedVectorSize = 384, actualVectorSize = None, action = create_collection,
                suggestedActions = None \<rparr>"
  let ?wa = "new_server\<lparr>calls := [ReadFileSync ''notes.txt'',
                            CreateDocuments (Fin 1000) (Fin 200) ''alpha'',
                            GetCollections, GetCollection ''docs'']\<rparr>"
  let ?wb = "new_server\<lparr>calls := [ReadFileSync ''notes.txt'',
                            CreateDocuments (Fin 1000) (Fin 200) ''alpha'',
                            GetCollections]\<rparr>"
  let ?wc = "new_server\<lparr>calls := [ReadFileSync ''notes.txt'',
                            CreateDocuments (Fin 1000) (Fin 200) ''alpha'',
                            GetCollections, FastEmbed ''BAAI/bge-small-en'' [''alpha'']]\<rparr>"
  let ?generated = "([JArr [JNum (Fin 1), JNum (Fin 2), JNum (Fin 3)]], ?es)"
  have a: "add_documents_until_verdict X_docs4 add_with_fastembed new_server =
             (Inr (?chunks, ?es, ?bad), ?wa)"
    by (simp add: add_documents_until_verdict_def X_docs4_def X_base_def add_with_fastembed_def
          run_defs)
  have b: "add_documents_until_verdict X_base add_with_fastembed new_server =
             (Inr (?chunks, ?es, ?good), ?wb)"
    by (simp add: add_documents_until_verdict_def X_base_def add_with_fastembed_def run_defs)
  have g: "isValid ?good
           \<and> generateEmbeddings X_base ?es (map chunk_text ?chunks) ?wb = (Inr ?generated, ?wc)
           \<and> vectorSize (snd ?generated) = Inr 384
           \<and> \<not> dv_isValid (validateVectorData (runtime X_base) (fst ?generated) 384)"
    by (simp add: X_base_def rt0_def run_defs)
  have ra: "handleAddDocuments X_docs4 add_with_fastembed new_server =
              (Inr \<lparr> content_text = compatibility_error_text ?bad, isError = True \<rparr>, ?wa)"
    and na: "no_store_mutation new_server ?wa"
    using validation_failure_precedes_mutation [OF a] by simp_all
  have rb: "handleAddDocuments X_base add_with_fastembed new_server =
              (Inr \<lparr> content_text =
                       vector_validation_failed_text
                         (validateVectorData (runtime X_base) (fst ?generated) 384),
                     isError = True \<rparr>, ?wc)"
    and nb: "no_store_mutation new_server ?wc"
    using validation_failure_precedes_mutation [OF b, of ?generated ?wc 384] g by blast+
  show ?thesis
    unfolding ra rb
    using na nb
    by (simp add: X_base_def rt0_def vector_validation_failed_text_def run_defs)
qed

lemma cache_kept_D:
  "always cache_kept m \<Longrightarrow> dimensionCache w k = Some n \<Longrightarrow> n \<noteq> 0 \<Longrightarrow>
     dimensionCache (snd (m w)) k = Some n"
  by (simp add: always_def cache_kept_def)





end
